theory Spec2Isabelle
  imports Complex_Main "HOL-Library.Multiset" "HOL-Library.Log_Nat"
begin

section \<open>Schemas (etl.py, lines 50-62 and 111-131)\<close>

text \<open>
  The column types of \<^verbatim>\<open>pyspark.sql.types\<close> that the two schemas use. A decimal type
  carries its precision and its scale.
\<close>

datatype data_type = IntegerType | LongType | StringType | DecimalType nat nat

text \<open>
  The source imports the types under aliases and calls each with no argument:
  \<^verbatim>\<open>Int()\<close>, \<^verbatim>\<open>Str()\<close>, \<^verbatim>\<open>Long()\<close>, \<^verbatim>\<open>Decimal()\<close>. The constructor of
  \<^verbatim>\<open>DecimalType\<close> has the defaults \<^verbatim>\<open>precision=10, scale=0\<close>.
\<close>

definition Int_t :: data_type where "Int_t = IntegerType"
definition Str :: data_type where "Str = StringType"
definition Long :: data_type where "Long = LongType"
definition Decimal :: data_type where "Decimal = DecimalType 10 0"

datatype struct_field = SF (field_name: string) (field_type: data_type) (nullable: bool)

type_synonym struct_type = "struct_field list"

definition song_schema :: struct_type where
  "song_schema =
     [SF ''num_songs'' Int_t True,
      SF ''artist_id'' Str True,
      SF ''artist_latitude'' Decimal True,
      SF ''artist_longitude'' Decimal True,
      SF ''artist_location'' Str True,
      SF ''artist_name'' Str True,
      SF ''song_id'' Str True,
      SF ''title'' Str True,
      SF ''duration'' Decimal True,
      SF ''year'' Int_t True]"

definition log_schema :: struct_type where
  "log_schema =
     [SF ''artist'' Str True,
      SF ''auth'' Str True,
      SF ''firstName'' Str True,
      SF ''gender'' Str True,
      SF ''itemInSession'' Int_t True,
      SF ''lastName'' Str True,
      SF ''length'' Decimal True,
      SF ''level'' Str True,
      SF ''location'' Str True,
      SF ''method'' Str True,
      SF ''page'' Str True,
      SF ''registration'' Long True,
      SF ''sessionId'' Int_t True,
      SF ''song'' Str True,
      SF ''status'' Int_t True,
      SF ''ts'' Long True,
      SF ''userAgent'' Str True,
      SF ''userId'' Str True]"

definition is_decimal :: "data_type \<Rightarrow> bool" where
  "is_decimal t = (case t of DecimalType p s \<Rightarrow> True | _ \<Rightarrow> False)"

definition decimal_fields :: "struct_type \<Rightarrow> string list" where
  "decimal_fields schema = map field_name (filter (\<lambda>f. is_decimal (field_type f)) schema)"

definition type_of_field :: "struct_type \<Rightarrow> string \<Rightarrow> data_type option" where
  "type_of_field schema n = map_option field_type (find (\<lambda>f. field_name f = n) schema)"

section \<open>Decimal values and the reader\<close>

text \<open>
  A stored decimal is an unscaled integer together with a scale: \<open>Dec u s\<close> stands for
  \<open>u / 10 ^ s\<close>, and \<open>s\<close> is its number of fractional digits.
\<close>

datatype decimal = Dec (unscaled: int) (scale: nat)

definition dec_value :: "decimal \<Rightarrow> rat" where
  "dec_value d = of_int (unscaled d) / 10 ^ scale d"

text \<open>Rounding to the nearest integer, a tie going away from zero (HALF\_UP).\<close>

definition round_half_up :: "rat \<Rightarrow> int" where
  "round_half_up x = (if 0 \<le> x then \<lfloor>x + 1 / 2\<rfloor> else - \<lfloor>- x + 1 / 2\<rfloor>)"

text \<open>
  Reading a JSON number into a column of the given type. For a decimal column the
  engine sets the number to the column's scale, rounding HALF\_UP, and the value does not
  fit when it has more digits than the precision; the model makes the field null then.
  A column of another type holds no decimal.
\<close>

definition to_decimal :: "data_type \<Rightarrow> rat \<Rightarrow> decimal option" where
  "to_decimal t x =
     (case t of
        DecimalType p s \<Rightarrow>
          (let u = round_half_up (x * 10 ^ s)
           in if \<bar>u\<bar> < 10 ^ p then Some (Dec u s) else None)
      | _ \<Rightarrow> None)"

definition read_decimal :: "struct_type \<Rightarrow> string \<Rightarrow> rat option \<Rightarrow> decimal option" where
  "read_decimal schema n v =
     (case v of
        None \<Rightarrow> None
      | Some x \<Rightarrow> (case type_of_field schema n of None \<Rightarrow> None | Some t \<Rightarrow> to_decimal t x))"

text \<open>
  Reading a JSON integer into a column of the given type: an \<^verbatim>\<open>IntegerType\<close> column
  holds 32 bits and a \<^verbatim>\<open>LongType\<close> column 64 bits, and a number outside the range of
  its column is stored as null.
\<close>

definition to_integer :: "data_type \<Rightarrow> int \<Rightarrow> int option" where
  "to_integer t n =
     (case t of
        IntegerType \<Rightarrow> if - 2147483648 \<le> n \<and> n \<le> 2147483647 then Some n else None
      | LongType \<Rightarrow>
          if - 9223372036854775808 \<le> n \<and> n \<le> 9223372036854775807 then Some n else None
      | _ \<Rightarrow> None)"

definition read_integer :: "struct_type \<Rightarrow> string \<Rightarrow> int option \<Rightarrow> int option" where
  "read_integer schema n v =
     (case v of
        None \<Rightarrow> None
      | Some x \<Rightarrow> (case type_of_field schema n of None \<Rightarrow> None | Some t \<Rightarrow> to_integer t x))"

section \<open>Records of the two inputs\<close>

text \<open>
  One record per JSON object, a field per column of the schema, every column nullable
  (\<open>None\<close> is SQL's null). The type parameter \<open>'d\<close> is the type of the decimal columns:
  \<open>rat\<close> for the number as the JSON text has it, \<open>decimal\<close> once the schema is applied.
  An integer column is an \<open>int\<close>: any integer in the JSON text, one within the range of
  the column once the schema is applied.
  In the log record \<open>'u\<close> is the type of \<open>userId\<close>: a string as read, an integer after
  the cast. The columns \<^verbatim>\<open>length\<close> and \<^verbatim>\<open>method\<close> of the log schema are the fields
  \<open>song_length\<close> and \<open>http_method\<close>.
\<close>

record 'd song_rec =
  num_songs :: "int option"
  artist_id :: "string option"
  artist_latitude :: "'d option"
  artist_longitude :: "'d option"
  artist_location :: "string option"
  artist_name :: "string option"
  song_id :: "string option"
  title :: "string option"
  duration :: "'d option"
  year :: "int option"

record ('d, 'u) log_rec =
  artist :: "string option"
  auth :: "string option"
  firstName :: "string option"
  gender :: "string option"
  itemInSession :: "int option"
  lastName :: "string option"
  song_length :: "'d option"
  level :: "string option"
  location :: "string option"
  http_method :: "string option"
  page :: "string option"
  registration :: "int option"
  sessionId :: "int option"
  song :: "string option"
  status :: "int option"
  ts :: "int option"
  userAgent :: "string option"
  userId :: "'u option"

text \<open>\<^verbatim>\<open>spark.read.json(song_data, schema=song_schema)\<close>, one record.\<close>

definition read_song :: "rat song_rec \<Rightarrow> decimal song_rec" where
  "read_song r =
     \<lparr>num_songs = read_integer song_schema ''num_songs'' (num_songs r),
      artist_id = artist_id r,
      artist_latitude = read_decimal song_schema ''artist_latitude'' (artist_latitude r),
      artist_longitude = read_decimal song_schema ''artist_longitude'' (artist_longitude r),
      artist_location = artist_location r,
      artist_name = artist_name r,
      song_id = song_id r,
      title = title r,
      duration = read_decimal song_schema ''duration'' (duration r),
      year = read_integer song_schema ''year'' (year r)\<rparr>"

text \<open>\<^verbatim>\<open>spark.read.json(log_data, schema=log_schema)\<close>, one record.\<close>

definition read_log :: "(rat, string) log_rec \<Rightarrow> (decimal, string) log_rec" where
  "read_log r =
     \<lparr>artist = artist r,
      auth = auth r,
      firstName = firstName r,
      gender = gender r,
      itemInSession = read_integer log_schema ''itemInSession'' (itemInSession r),
      lastName = lastName r,
      song_length = read_decimal log_schema ''length'' (song_length r),
      level = level r,
      location = location r,
      http_method = http_method r,
      page = page r,
      registration = read_integer log_schema ''registration'' (registration r),
      sessionId = read_integer log_schema ''sessionId'' (sessionId r),
      song = song r,
      status = read_integer log_schema ''status'' (status r),
      ts = read_integer log_schema ''ts'' (ts r),
      userAgent = userAgent r,
      userId = userId r\<rparr>"

section \<open>Song transform (process\_song\_data)\<close>

text \<open>
  \<^verbatim>\<open>dropDuplicates()\<close> with no column list and SQL's \<^verbatim>\<open>DISTINCT\<close> keep one row of
  each group of equal rows; nulls are equal to each other there.
\<close>

definition dropDuplicates :: "'a list \<Rightarrow> 'a list" where
  "dropDuplicates rows = remdups rows"

type_synonym songs_row =
  "string option \<times> string option \<times> string option \<times> int option \<times> decimal option"

type_synonym artists_row =
  "string option \<times> string option \<times> string option \<times> decimal option \<times> decimal option"

text \<open>\<^verbatim>\<open>df.select("song_id", "title", "artist_id", "year", "duration")\<close>\<close>

definition select_song :: "decimal song_rec \<Rightarrow> songs_row" where
  "select_song s = (song_id s, title s, artist_id s, year s, duration s)"

definition songs_table :: "decimal song_rec list \<Rightarrow> songs_row list" where
  "songs_table df = dropDuplicates (map select_song df)"

definition select_artist :: "decimal song_rec \<Rightarrow> artists_row" where
  "select_artist s =
     (artist_id s, artist_name s, artist_location s, artist_latitude s, artist_longitude s)"

definition artists_table :: "decimal song_rec list \<Rightarrow> artists_row list" where
  "artists_table df = dropDuplicates (map select_artist df)"

section \<open>SQL's three-valued conditions\<close>

text \<open>
  A comparison with a null operand is null, \<^verbatim>\<open>AND\<close> is Kleene's, and a filter or a join
  keeps a row only where its condition is true.
\<close>

definition sql_eq :: "'a option \<Rightarrow> 'a option \<Rightarrow> bool option" where
  "sql_eq a b =
     (case a of None \<Rightarrow> None
      | Some x \<Rightarrow> (case b of None \<Rightarrow> None | Some y \<Rightarrow> Some (x = y)))"

definition sql_neq :: "'a option \<Rightarrow> 'a option \<Rightarrow> bool option" where
  "sql_neq a b = map_option Not (sql_eq a b)"

definition sql_and :: "bool option \<Rightarrow> bool option \<Rightarrow> bool option" where
  "sql_and p q =
     (if p = Some False \<or> q = Some False then Some False
      else if p = Some True \<and> q = Some True then Some True
      else None)"

definition is_true :: "bool option \<Rightarrow> bool" where
  "is_true p = (p = Some True)"

section \<open>Log transform: filter, cast, users (etl.py, lines 137-147)\<close>

text \<open>\<^verbatim>\<open>(df.page == "NextSong") & (df.userId != "")\<close>\<close>

definition where_cond :: "('d, string) log_rec \<Rightarrow> bool option" where
  "where_cond e = sql_and (sql_eq (page e) (Some ''NextSong'')) (sql_neq (userId e) (Some ''''))"

text \<open>
  \<^verbatim>\<open>withColumn('userId', expr("cast(userId as int)"))\<close>. The cast of a string to an
  integer is the engine's; the model takes it as the parameter \<open>cast_int\<close>, which maps a
  string to the integer it denotes or to null. A null stays null.
\<close>

definition cast_userId ::
  "(string \<Rightarrow> int option) \<Rightarrow> ('d, string) log_rec \<Rightarrow> ('d, int) log_rec" where
  "cast_userId cast_int r =
     \<lparr>artist = artist r,
      auth = auth r,
      firstName = firstName r,
      gender = gender r,
      itemInSession = itemInSession r,
      lastName = lastName r,
      song_length = song_length r,
      level = level r,
      location = location r,
      http_method = http_method r,
      page = page r,
      registration = registration r,
      sessionId = sessionId r,
      song = song r,
      status = status r,
      ts = ts r,
      userAgent = userAgent r,
      userId = (case userId r of None \<Rightarrow> None | Some u \<Rightarrow> cast_int u)\<rparr>"

definition filter_cast ::
  "(string \<Rightarrow> int option) \<Rightarrow> ('d, string) log_rec list \<Rightarrow> ('d, int) log_rec list" where
  "filter_cast cast_int df = map (cast_userId cast_int) (filter (\<lambda>e. is_true (where_cond e)) df)"

type_synonym users_row =
  "int option \<times> string option \<times> string option \<times> string option \<times> string option"

text \<open>\<^verbatim>\<open>df.select("userId","firstName","lastName","gender","level")\<close>\<close>

definition select_user :: "('d, int) log_rec \<Rightarrow> users_row" where
  "select_user e = (userId e, firstName e, lastName e, gender e, level e)"

definition users_table :: "('d, int) log_rec list \<Rightarrow> users_row list" where
  "users_table df = dropDuplicates (map select_user df)"

section \<open>The datetime column (etl.py, lines 150-154)\<close>

text \<open>
  \<^verbatim>\<open>get_datetime = udf(lambda ts: datetime.fromtimestamp((ts/1000)), Time())\<close>

  The lambda runs in Python 3: \<^verbatim>\<open>ts/1000\<close> is the true division of an integer, whose
  result is the double nearest to the quotient, and of a null \<open>ts\<close> it raises TypeError.
  \<^verbatim>\<open>fromtimestamp\<close> splits the double into whole seconds and a fraction, rounds the
  fraction to microseconds (a tie to the even one), shifts the seconds to the local time
  of the process, and raises ValueError for a year outside 1 to 9999.
\<close>

datatype error = TypeError | ValueError | AnalysisException

subsection \<open>Doubles\<close>

text \<open>
  A double is modelled by the rational it stands for. \<open>to_double x\<close> is the double nearest
  to \<open>x\<close> (53 bits, ties to even); the quotients of this program are far from the
  subnormal and the infinite range.
\<close>

definition pow2 :: "int \<Rightarrow> rat" where
  "pow2 e = (if 0 \<le> e then 2 ^ nat e else 1 / 2 ^ nat (- e))"

definition ilog2 :: "rat \<Rightarrow> int" where
  "ilog2 x =
     (let e0 = int (floorlog 2 (nat (fst (quotient_of x)))) -
               int (floorlog 2 (nat (snd (quotient_of x))))
      in if pow2 e0 \<le> x then e0 else e0 - 1)"

definition round_half_even :: "rat \<Rightarrow> int" where
  "round_half_even x =
     (let f = \<lfloor>x\<rfloor>; r = x - of_int f
      in if r < 1 / 2 then f else if 1 / 2 < r then f + 1 else if even f then f else f + 1)"

definition to_double :: "rat \<Rightarrow> rat" where
  "to_double x =
     (if x = 0 then 0
      else (let u = pow2 (ilog2 \<bar>x\<bar> - 52) in of_int (round_half_even (x / u)) * u))"

definition trunc :: "rat \<Rightarrow> int" where
  "trunc x = (if 0 \<le> x then \<lfloor>x\<rfloor> else \<lceil>x\<rceil>)"

subsection \<open>fromtimestamp\<close>

text \<open>
  The whole seconds and the microseconds of a double: the fraction times \<open>10\<^sup>6\<close> is a
  double again, rounded half to even, with the carry into the seconds.
\<close>

definition timeval_of_double :: "rat \<Rightarrow> int \<times> int" where
  "timeval_of_double d =
     (let intpart = trunc d;
          floatpart = round_half_even (to_double ((d - of_int intpart) * 1000000))
      in if 1000000 \<le> floatpart then (intpart + 1, floatpart - 1000000)
         else if floatpart < 0 then (intpart - 1, floatpart + 1000000)
         else (intpart, floatpart))"

text \<open>
  The proleptic Gregorian date of a day number (day 0 is 1970-01-01), as year, month and
  day of the month.
\<close>

definition civil_from_days :: "int \<Rightarrow> int \<times> int \<times> int" where
  "civil_from_days z0 =
     (let z = z0 + 719468;
          era = z div 146097;
          doe = z - era * 146097;
          yoe = (doe - doe div 1460 + doe div 36524 - doe div 146096) div 365;
          doy = doe - (365 * yoe + yoe div 4 - yoe div 100);
          mp = (5 * doy + 2) div 153;
          d = doy - (153 * mp + 2) div 5 + 1;
          m = (if mp < 10 then mp + 3 else mp - 9);
          y = yoe + era * 400
      in (if m \<le> 2 then y + 1 else y, m, d))"

text \<open>
  A naive datetime is the count of microseconds of its wall clock since
  1970-01-01 00:00:00 on that same wall clock; two datetimes are equal when the counts
  are. The local timezone of the process is the parameter \<open>tz\<close>: the offset from UTC, in
  seconds, in force at a given epoch second. The column keeps the datetime to the
  microsecond, and the SQL functions below read its fields on the same wall clock (the
  session timezone being that of the process).
\<close>

type_synonym datetime = int

definition fromtimestamp :: "(int \<Rightarrow> int) \<Rightarrow> rat \<Rightarrow> error + datetime" where
  "fromtimestamp tz d =
     (let (timet, us) = timeval_of_double d;
          wall = timet + tz timet;
          y = fst (civil_from_days (wall div 86400))
      in if 1 \<le> y \<and> y \<le> 9999 then Inr (wall * 1000000 + us) else Inl ValueError)"

definition get_datetime :: "(int \<Rightarrow> int) \<Rightarrow> int option \<Rightarrow> error + datetime" where
  "get_datetime tz t =
     (case t of
        None \<Rightarrow> Inl TypeError
      | Some n \<Rightarrow> fromtimestamp tz (to_double (of_int n / 1000)))"

subsection \<open>The SQL functions of a datetime\<close>

definition wall_seconds :: "datetime \<Rightarrow> int" where
  "wall_seconds dt = dt div 1000000"

definition sql_hour :: "datetime \<Rightarrow> int" where
  "sql_hour dt = (wall_seconds dt mod 86400) div 3600"

definition sql_year :: "datetime \<Rightarrow> int" where
  "sql_year dt = fst (civil_from_days (wall_seconds dt div 86400))"

definition sql_month :: "datetime \<Rightarrow> int" where
  "sql_month dt = fst (snd (civil_from_days (wall_seconds dt div 86400)))"

definition sql_day :: "datetime \<Rightarrow> int" where
  "sql_day dt = snd (snd (civil_from_days (wall_seconds dt div 86400)))"

text \<open>\<^verbatim>\<open>dayofweek\<close>: 1 is Sunday, 7 is Saturday. \<^verbatim>\<open>weekday\<close>: 0 is Monday, 6 is Sunday.\<close>

definition sql_dayofweek :: "datetime \<Rightarrow> int" where
  "sql_dayofweek dt = (wall_seconds dt div 86400 + 4) mod 7 + 1"

definition sql_weekday :: "datetime \<Rightarrow> int" where
  "sql_weekday dt = (wall_seconds dt div 86400 + 3) mod 7"

text \<open>\<^verbatim>\<open>date_format(datetime, 'EEEE')\<close>: the name of the day of the week.\<close>

definition date_format_EEEE :: "datetime \<Rightarrow> string" where
  "date_format_EEEE dt =
     [''Monday'', ''Tuesday'', ''Wednesday'', ''Thursday'', ''Friday'', ''Saturday'', ''Sunday'']
       ! nat (sql_weekday dt)"

section \<open>Log transform: time and songplays (etl.py, lines 154-202)\<close>

text \<open>
  \<^verbatim>\<open>df.withColumn('datetime', get_datetime('ts'))\<close>: the function is applied to the
  \<open>ts\<close> of every row, and the first exception it raises fails the job. A row of the
  result is the log record paired with its datetime. (The column \<^verbatim>\<open>start_time\<close> of
  line 150 is selected by no later query and is left out.)
\<close>

fun with_datetime ::
  "(int \<Rightarrow> int) \<Rightarrow> ('d, 'u) log_rec list \<Rightarrow> error + (('d, 'u) log_rec \<times> datetime) list" where
  "with_datetime tz [] = Inr []"
| "with_datetime tz (e # es) =
     (case get_datetime tz (ts e) of
        Inl err \<Rightarrow> Inl err
      | Inr dt \<Rightarrow>
          (case with_datetime tz es of
             Inl err \<Rightarrow> Inl err
           | Inr rows \<Rightarrow> Inr ((e, dt) # rows)))"

type_synonym time_row = "datetime \<times> int \<times> int \<times> string \<times> int \<times> int \<times> int \<times> int"

text \<open>
  The select list of the time query: \<^verbatim>\<open>datetime, hour(datetime) as Hour,
  dayofweek(datetime) as dayofweek, date_format(datetime, 'EEEE') as Week,
  day(datetime) as Day, month(datetime) as Month, year(datetime) as Year,
  weekday(datetime) as WeekDay\<close>.
\<close>

definition select_time :: "datetime \<Rightarrow> time_row" where
  "select_time dt =
     (dt, sql_hour dt, sql_dayofweek dt, date_format_EEEE dt,
      sql_day dt, sql_month dt, sql_year dt, sql_weekday dt)"

text \<open>\<^verbatim>\<open>SELECT datetime, ... FROM log_dataset\<close>: one row of the result per row of the view.\<close>

definition time_table :: "(('d, 'u) log_rec \<times> datetime) list \<Rightarrow> time_row list" where
  "time_table df = map (\<lambda>r. select_time (snd r)) df"

text \<open>
  The condition of the join:
  \<^verbatim>\<open>e.artist=s.artist_name and e.length=s.duration and e.song=s.title\<close>.
\<close>

definition join_cond :: "('d, 'u) log_rec \<Rightarrow> 'd song_rec \<Rightarrow> bool option" where
  "join_cond e s =
     sql_and (sql_and (sql_eq (artist e) (artist_name s)) (sql_eq (song_length e) (duration s)))
             (sql_eq (song e) (title s))"

text \<open>The inner join: every pair of a log row and a song row whose condition is true.\<close>

definition join_rows ::
  "(('d, 'u) log_rec \<times> datetime) list \<Rightarrow> 'd song_rec list \<Rightarrow>
   ((('d, 'u) log_rec \<times> datetime) \<times> 'd song_rec) list" where
  "join_rows logs songs =
     concat (map (\<lambda>e. map (\<lambda>s. (e, s)) (filter (\<lambda>s. is_true (join_cond (fst e) s)) songs)) logs)"

type_synonym songplays_row =
  "int option \<times> int \<times> int \<times> int option \<times> string option \<times> string option \<times> string option \<times>
   int option \<times> string option \<times> string option"

text \<open>
  The select list of the songplays query: \<^verbatim>\<open>e.ts, month(e.datetime) as month,
  year(e.datetime) as year, e.userid, e.level, s.song_id, s.artist_id, e.sessionid,
  e.location, e.useragent\<close>.
\<close>

definition select_songplay :: "(('d, int) log_rec \<times> datetime) \<Rightarrow> 'd song_rec \<Rightarrow> songplays_row" where
  "select_songplay e s =
     (ts (fst e), sql_month (snd e), sql_year (snd e), userId (fst e), level (fst e),
      song_id s, artist_id s, sessionId (fst e), location (fst e), userAgent (fst e))"

definition songplays_table ::
  "(('d, int) log_rec \<times> datetime) list \<Rightarrow> 'd song_rec list \<Rightarrow> songplays_row list" where
  "songplays_table logs songs =
     dropDuplicates (map (\<lambda>r. select_songplay (fst r) (snd r)) (join_rows logs songs))"

section \<open>The session, the output location and the two transforms\<close>

text \<open>
  A written table is its rows, as a multiset (a parquet directory has no order of rows),
  with the columns it is partitioned by.
\<close>

datatype table =
    SongsT "songs_row multiset"
  | ArtistsT "artists_row multiset"
  | UsersT "users_row multiset"
  | TimeT "time_row multiset"
  | SongplaysT "songplays_row multiset"

datatype parquet = Parquet (partitionBy: "string list") (table_rows: table)

text \<open>
  The state the two transforms share: the temporary views registered in the Spark
  session and the files under the output location.
\<close>

record state =
  song_dataset :: "decimal song_rec list option"
  log_dataset :: "((decimal, int) log_rec \<times> datetime) list option"
  files :: "string \<rightharpoonup> parquet"

text \<open>The records found under the input location, by the two glob patterns.\<close>

record input =
  song_data :: "rat song_rec list"
  log_data :: "(rat, string) log_rec list"

text \<open>
  \<^verbatim>\<open>partitionBy\<close>: the value of a partition column is stored in the name of a
  directory, where the empty string and null are the same (the null partition). So a
  string column that the table is partitioned by holds null in the written table where
  the row had the empty string. The integer and decimal columns are written as they are,
  and so is the weekday name of the time table, which is never empty.
\<close>

definition partition_value :: "string option \<Rightarrow> string option" where
  "partition_value v = (if v = Some [] then None else v)"

definition stored_col :: "string list \<Rightarrow> string \<Rightarrow> string option \<Rightarrow> string option" where
  "stored_col cols n v = (if n \<in> set cols then partition_value v else v)"

definition stored_song :: "string list \<Rightarrow> songs_row \<Rightarrow> songs_row" where
  "stored_song cols r =
     (case r of (sid, ti, aid, y, d) \<Rightarrow>
        (stored_col cols ''song_id'' sid, stored_col cols ''title'' ti,
         stored_col cols ''artist_id'' aid, y, d))"

definition stored_artist :: "string list \<Rightarrow> artists_row \<Rightarrow> artists_row" where
  "stored_artist cols r =
     (case r of (aid, n, loc, la, lo) \<Rightarrow>
        (stored_col cols ''artist_id'' aid, stored_col cols ''artist_name'' n,
         stored_col cols ''artist_location'' loc, la, lo))"

definition stored_user :: "string list \<Rightarrow> users_row \<Rightarrow> users_row" where
  "stored_user cols r =
     (case r of (u, f, l, g, lv) \<Rightarrow>
        (u, stored_col cols ''firstName'' f, stored_col cols ''lastName'' l,
         stored_col cols ''gender'' g, stored_col cols ''level'' lv))"

definition stored_songplay :: "string list \<Rightarrow> songplays_row \<Rightarrow> songplays_row" where
  "stored_songplay cols r =
     (case r of (t, m, y, u, lv, sid, aid, ses, loc, ua) \<Rightarrow>
        (t, m, y, u, stored_col cols ''level'' lv, stored_col cols ''song_id'' sid,
         stored_col cols ''artist_id'' aid, ses, stored_col cols ''location'' loc,
         stored_col cols ''useragent'' ua))"

definition stored_rows :: "string list \<Rightarrow> table \<Rightarrow> table" where
  "stored_rows cols t =
     (case t of
        SongsT rows \<Rightarrow> SongsT (image_mset (stored_song cols) rows)
      | ArtistsT rows \<Rightarrow> ArtistsT (image_mset (stored_artist cols) rows)
      | UsersT rows \<Rightarrow> UsersT (image_mset (stored_user cols) rows)
      | TimeT rows \<Rightarrow> TimeT rows
      | SongplaysT rows \<Rightarrow> SongplaysT (image_mset (stored_songplay cols) rows))"

text \<open>
  \<^verbatim>\<open>write.mode("overwrite")\<close>: what was at the path is replaced by the table, stored
  under its partition columns.
\<close>

definition write_overwrite :: "string \<Rightarrow> string list \<Rightarrow> table \<Rightarrow> state \<Rightarrow> state" where
  "write_overwrite path cols t st =
     st\<lparr>files := (files st)(path \<mapsto> Parquet cols (stored_rows cols t))\<rparr>"

text \<open>
  The calls of \<^verbatim>\<open>show\<close>, \<^verbatim>\<open>count\<close> and \<^verbatim>\<open>print\<close> write to the console only and
  are left out.
\<close>

definition process_song_data :: "input \<Rightarrow> string \<Rightarrow> state \<Rightarrow> state" where
  "process_song_data input_data output_data st =
     (let df = map read_song (song_data input_data);
          st1 = write_overwrite (output_data @ ''songs.parquet'') [''year'', ''artist_id'']
                  (SongsT (mset (songs_table df))) st;
          st2 = st1\<lparr>song_dataset := Some df\<rparr>
      in write_overwrite (output_data @ ''artists.parquet'') []
           (ArtistsT (mset (artists_table df))) st2)"

text \<open>
  The users table is written before the datetime column exists. The time table is the
  first action on that column: an exception of \<open>get_datetime\<close> ends the run there. The
  songplays query names the view \<^verbatim>\<open>song_dataset\<close>, which the song transform registers;
  without it the query fails to resolve.
\<close>

definition process_log_data ::
  "(int \<Rightarrow> int) \<Rightarrow> (string \<Rightarrow> int option) \<Rightarrow> input \<Rightarrow> string \<Rightarrow> state \<Rightarrow> error + state" where
  "process_log_data tz cast_int input_data output_data st =
     (let df = filter_cast cast_int (map read_log (log_data input_data));
          st1 = write_overwrite (output_data @ ''users.parquet'') []
                  (UsersT (mset (users_table df))) st
      in case with_datetime tz df of
           Inl err \<Rightarrow> Inl err
         | Inr dfd \<Rightarrow>
             (let st2 = st1\<lparr>log_dataset := Some dfd\<rparr>;
                  st3 = write_overwrite (output_data @ ''time.parquet'') [''Year'', ''Month'']
                          (TimeT (mset (time_table dfd))) st2
              in case song_dataset st3 of
                   None \<Rightarrow> Inl AnalysisException
                 | Some songs \<Rightarrow>
                     Inr (write_overwrite (output_data @ ''songplays.parquet'') [''year'', ''month'']
                            (SongplaysT (mset (songplays_table dfd songs))) st3)))"

text \<open>
  \<^verbatim>\<open>main\<close>: a session with no view yet, the fixed output location, the song transform
  and then the log transform. \<open>input_data\<close> is what the input location holds, \<open>fs\<close> what
  the output location held before the run; the result is what it holds after.
\<close>

definition create_spark_session :: "(string \<rightharpoonup> parquet) \<Rightarrow> state" where
  "create_spark_session fs = \<lparr>song_dataset = None, log_dataset = None, files = fs\<rparr>"

definition main ::
  "(int \<Rightarrow> int) \<Rightarrow> (string \<Rightarrow> int option) \<Rightarrow> input \<Rightarrow> (string \<rightharpoonup> parquet) \<Rightarrow>
   error + (string \<rightharpoonup> parquet)" where
  "main tz cast_int input_data fs =
     (let spark = create_spark_session fs;
          output_data = ''s3a://sparkify-data-lake-p4/''
      in case process_log_data tz cast_int input_data output_data
                (process_song_data input_data output_data spark) of
           Inl err \<Rightarrow> Inl err
         | Inr st \<Rightarrow> Inr (files st))"

text \<open>The five paths \<open>main\<close> writes, and the table a run leaves at a path.\<close>

definition output_tables :: "string list" where
  "output_tables =
     [''s3a://sparkify-data-lake-p4/songs.parquet'',
      ''s3a://sparkify-data-lake-p4/artists.parquet'',
      ''s3a://sparkify-data-lake-p4/users.parquet'',
      ''s3a://sparkify-data-lake-p4/time.parquet'',
      ''s3a://sparkify-data-lake-p4/songplays.parquet'']"

definition table_at :: "string \<Rightarrow> error + (string \<rightharpoonup> parquet) \<Rightarrow> table option" where
  "table_at p r = (case r of Inl err \<Rightarrow> None | Inr fs \<Rightarrow> map_option table_rows (fs p))"

section \<open>Example records\<close>

text \<open>
  The timezone UTC, and a cast for the examples: a string of ASCII digits denotes its
  number when that fits 32 bits, and any other string is null.
\<close>

definition utc :: "int \<Rightarrow> int" where
  "utc t = 0"

definition digit_of :: "char \<Rightarrow> int option" where
  "digit_of c =
     (let n = (of_char c :: nat) in if 48 \<le> n \<and> n \<le> 57 then Some (int n - 48) else None)"

fun digits_value :: "int \<Rightarrow> string \<Rightarrow> int option" where
  "digits_value acc [] = Some acc"
| "digits_value acc (c # cs) =
     (case digit_of c of None \<Rightarrow> None | Some d \<Rightarrow> digits_value (10 * acc + d) cs)"

definition cast_digits :: "string \<Rightarrow> int option" where
  "cast_digits s =
     (if s = [] then None
      else (case digits_value 0 s of
              None \<Rightarrow> None
            | Some n \<Rightarrow> if n \<le> 2147483647 then Some n else None))"

text \<open>
  One song and one play of it, as JSON objects: the song "T1" of "Band", 210.50 seconds
  long, played by user "10" at the epoch millisecond 1541110148796.
\<close>

definition example_song :: "rat song_rec" where
  "example_song =
     \<lparr>num_songs = Some 1,
      artist_id = Some ''ARA'',
      artist_latitude = None,
      artist_longitude = None,
      artist_location = None,
      artist_name = Some ''Band'',
      song_id = Some ''SOA'',
      title = Some ''T1'',
      duration = Some (421 / 2),
      year = Some 2003\<rparr>"

definition example_log :: "(rat, string) log_rec" where
  "example_log =
     \<lparr>artist = Some ''Band'',
      auth = Some ''Logged In'',
      firstName = Some ''Sylvie'',
      gender = Some ''F'',
      itemInSession = Some 0,
      lastName = Some ''Cruz'',
      song_length = Some (421 / 2),
      level = Some ''free'',
      location = None,
      http_method = Some ''PUT'',
      page = Some ''NextSong'',
      registration = None,
      sessionId = Some 1,
      song = Some ''T1'',
      status = Some 200,
      ts = Some 1541110148796,
      userAgent = None,
      userId = Some ''10''\<rparr>"

text \<open>
  The input that holds this song and this play, and the five tables a run on it in UTC
  leaves at the output location.
\<close>

definition example_input :: input where
  "example_input = \<lparr>song_data = [example_song], log_data = [example_log]\<rparr>"

definition example_output :: "string \<rightharpoonup> parquet" where
  "example_output =
     [''s3a://sparkify-data-lake-p4/songs.parquet'' \<mapsto>
        Parquet [''year'', ''artist_id'']
          (SongsT {#(Some ''SOA'', Some ''T1'', Some ''ARA'', Some 2003, Some (Dec 211 0))#}),
      ''s3a://sparkify-data-lake-p4/artists.parquet'' \<mapsto>
        Parquet [] (ArtistsT {#(Some ''ARA'', Some ''Band'', None, None, None)#}),
      ''s3a://sparkify-data-lake-p4/users.parquet'' \<mapsto>
        Parquet [] (UsersT {#(Some 10, Some ''Sylvie'', Some ''Cruz'', Some ''F'', Some ''free'')#}),
      ''s3a://sparkify-data-lake-p4/time.parquet'' \<mapsto>
        Parquet [''Year'', ''Month'']
          (TimeT {#(1541110148796000, 22, 5, ''Thursday'', 1, 11, 2018, 3)#}),
      ''s3a://sparkify-data-lake-p4/songplays.parquet'' \<mapsto>
        Parquet [''year'', ''month'']
          (SongplaysT {#(Some 1541110148796, 11, 2018, Some 10, Some ''free'', Some ''SOA'',
                         Some ''ARA'', Some 1, None, None)#})]"

section \<open>The bounds the specification states\<close>

text \<open>
  The filtered log records that have at least one song record matching them in the join
  condition, as the specification counts them.
\<close>

definition matched_logs ::
  "(('d, 'u) log_rec \<times> datetime) list \<Rightarrow> 'd song_rec list \<Rightarrow> (('d, 'u) log_rec \<times> datetime) list" where
  "matched_logs logs songs =
     filter (\<lambda>e. list_ex (\<lambda>s. is_true (join_cond (fst e) s)) songs) logs"

text \<open>
  The datetime as the specification words it: the floor of \<open>ts / 1000\<close>, taken as epoch
  seconds, on the wall clock of the local timezone.
\<close>

definition floor_datetime :: "(int \<Rightarrow> int) \<Rightarrow> int \<Rightarrow> datetime" where
  "floor_datetime tz n = (n div 1000 + tz (n div 1000)) * 1000000"

section \<open>Facts about the conditions and about duplicates\<close>

lemma count_list_remdups: "count_list (remdups xs) x = (if x \<in> set xs then 1 else 0)"
  by (induction xs) auto

lemma count_dropDuplicates:
  "count (mset (dropDuplicates xs)) x = (if x \<in> set xs then 1 else 0)"
  by (simp add: dropDuplicates_def count_mset count_list_remdups)

lemma is_true_sql_eq: "is_true (sql_eq a b) \<longleftrightarrow> (\<exists>x. a = Some x \<and> b = Some x)"
  by (auto simp: is_true_def sql_eq_def split: option.splits)

lemma is_true_sql_neq:
  "is_true (sql_neq a b) \<longleftrightarrow> (\<exists>x y. a = Some x \<and> b = Some y \<and> x \<noteq> y)"
  by (auto simp: is_true_def sql_neq_def sql_eq_def split: option.splits)

lemma is_true_sql_and: "is_true (sql_and p q) \<longleftrightarrow> is_true p \<and> is_true q"
  by (auto simp: is_true_def sql_and_def)

lemma is_true_join_cond:
  "is_true (join_cond e s) \<longleftrightarrow>
     (\<exists>a. artist e = Some a \<and> artist_name s = Some a) \<and>
     (\<exists>l. song_length e = Some l \<and> duration s = Some l) \<and>
     (\<exists>t. song e = Some t \<and> title s = Some t)"
  by (simp add: join_cond_def is_true_sql_and is_true_sql_eq)

lemma is_true_where_cond:
  "is_true (where_cond e) \<longleftrightarrow>
     page e = Some ''NextSong'' \<and> (\<exists>u. userId e = Some u \<and> u \<noteq> [])"
  by (auto simp: where_cond_def is_true_sql_and is_true_sql_eq is_true_sql_neq)

section \<open>The songs table\<close>

lemma read_integer_song:
  "read_integer song_schema ''num_songs'' v =
     (case v of None \<Rightarrow> None
      | Some n \<Rightarrow> if - 2147483648 \<le> n \<and> n \<le> 2147483647 then Some n else None)"
  "read_integer song_schema ''year'' v =
     (case v of None \<Rightarrow> None
      | Some n \<Rightarrow> if - 2147483648 \<le> n \<and> n \<le> 2147483647 then Some n else None)"
  by (simp_all add: read_integer_def type_of_field_def song_schema_def to_integer_def Int_t_def
        split: option.splits)

lemma read_integer_log:
  "read_integer log_schema ''itemInSession'' v =
     (case v of None \<Rightarrow> None
      | Some n \<Rightarrow> if - 2147483648 \<le> n \<and> n \<le> 2147483647 then Some n else None)"
  "read_integer log_schema ''sessionId'' v =
     (case v of None \<Rightarrow> None
      | Some n \<Rightarrow> if - 2147483648 \<le> n \<and> n \<le> 2147483647 then Some n else None)"
  "read_integer log_schema ''status'' v =
     (case v of None \<Rightarrow> None
      | Some n \<Rightarrow> if - 2147483648 \<le> n \<and> n \<le> 2147483647 then Some n else None)"
  "read_integer log_schema ''registration'' v =
     (case v of None \<Rightarrow> None
      | Some n \<Rightarrow>
          if - 9223372036854775808 \<le> n \<and> n \<le> 9223372036854775807 then Some n else None)"
  "read_integer log_schema ''ts'' v =
     (case v of None \<Rightarrow> None
      | Some n \<Rightarrow>
          if - 9223372036854775808 \<le> n \<and> n \<le> 9223372036854775807 then Some n else None)"
  by (simp_all add: read_integer_def type_of_field_def log_schema_def to_integer_def Int_t_def
        Long_def split: option.splits)



section \<open>Facts about the log transform\<close>

lemma with_datetime_Inr_iff:
  "with_datetime tz df = Inr rows \<longleftrightarrow>
     list_all2 (\<lambda>e r. fst r = e \<and> get_datetime tz (ts e) = Inr (snd r)) df rows"
proof (induction df arbitrary: rows)
  case Nil
  then show ?case by auto
next
  case (Cons e es)
  show ?case
  proof (cases rows)
    case Nil
    then show ?thesis by (auto split: sum.splits)
  next
    case (Cons r rs)
    then show ?thesis using Cons.IH [of rs]
      by (cases r) (auto split: sum.splits)
  qed
qed

lemma with_datetime_fst: "with_datetime tz df = Inr rows \<Longrightarrow> map fst rows = df"
  unfolding with_datetime_Inr_iff
  by (induction df rows rule: list_all2_induct) auto

lemma with_datetime_set:
  "with_datetime tz df = Inr rows \<Longrightarrow>
     (e, dt) \<in> set rows \<longleftrightarrow> e \<in> set df \<and> get_datetime tz (ts e) = Inr dt"
  unfolding with_datetime_Inr_iff
  by (induction df rows rule: list_all2_induct) auto

lemma set_join_rows:
  "set (join_rows logs songs) =
     {(e, s). e \<in> set logs \<and> s \<in> set songs \<and> is_true (join_cond (fst e) s)}"
  by (auto simp: join_rows_def)

lemma in_songplays_table:
  "r \<in> set (songplays_table logs songs) \<longleftrightarrow>
     (\<exists>e\<in>set logs. \<exists>s\<in>set songs. is_true (join_cond (fst e) s) \<and> r = select_songplay e s)"
proof
  assume "r \<in> set (songplays_table logs songs)"
  then obtain p where p: "p \<in> set (join_rows logs songs)" "r = select_songplay (fst p) (snd p)"
    by (auto simp: songplays_table_def dropDuplicates_def)
  then have "fst p \<in> set logs \<and> snd p \<in> set songs \<and> is_true (join_cond (fst (fst p)) (snd p))"
    by (simp add: set_join_rows split_beta)
  with p(2) show "\<exists>e\<in>set logs. \<exists>s\<in>set songs. is_true (join_cond (fst e) s) \<and> r = select_songplay e s"
    by blast
next
  assume "\<exists>e\<in>set logs. \<exists>s\<in>set songs. is_true (join_cond (fst e) s) \<and> r = select_songplay e s"
  then obtain e s where "e \<in> set logs" "s \<in> set songs" "is_true (join_cond (fst e) s)"
    "r = select_songplay e s" by blast
  then have "(e, s) \<in> set (join_rows logs songs)" "r = select_songplay (fst (e, s)) (snd (e, s))"
    by (auto simp: set_join_rows)
  then show "r \<in> set (songplays_table logs songs)"
    unfolding songplays_table_def dropDuplicates_def set_remdups set_map by (rule rev_image_eqI)
qed

lemma set_filter_cast:
  "set (filter_cast cast_int df) = cast_userId cast_int ` {e \<in> set df. is_true (where_cond e)}"
  by (simp add: filter_cast_def)

section \<open>Null join keys\<close>

text \<open>
  Claim C10. A filtered log record whose artist, song or length is null satisfies the join
  condition with no song record, whatever that record holds (a null in the matching
  column included): it pairs with nothing, and the songplays table is the same with or
  without it.
\<close>

theorem null_join_key_no_songplay:
  assumes "artist e = None \<or> song e = None \<or> song_length e = None"
  shows "(\<forall>s. \<not> is_true (join_cond e s)) \<and>
         join_rows [(e, dt)] songs = [] \<and>
         songplays_table (xs @ (e, dt) # ys) songs = songplays_table (xs @ ys) songs"
proof -
  have n: "\<not> is_true (join_cond e s)" for s :: "'a song_rec"
    using assms by (auto simp: is_true_join_cond)
  then show ?thesis
    by (simp add: join_rows_def songplays_table_def)
qed

theorem null_join_key_no_songplay_witness:
  "(artist (cast_userId cast_digits (read_log (example_log\<lparr>artist := None\<rparr>))) = None \<or>
    song (cast_userId cast_digits (read_log (example_log\<lparr>artist := None\<rparr>))) = None \<or>
    song_length (cast_userId cast_digits (read_log (example_log\<lparr>artist := None\<rparr>))) = None) \<and>
   (\<forall>s. \<not> is_true (join_cond (cast_userId cast_digits (read_log (example_log\<lparr>artist := None\<rparr>))) (s :: decimal song_rec))) \<and>
   join_rows [(cast_userId cast_digits (read_log (example_log\<lparr>artist := None\<rparr>)), 1541110148796000)]
     [read_song (example_song\<lparr>artist_name := None\<rparr>)] = [] \<and>
   songplays_table ([] @ (cast_userId cast_digits (read_log (example_log\<lparr>artist := None\<rparr>)), 1541110148796000) # [])
     [read_song (example_song\<lparr>artist_name := None\<rparr>)] =
   songplays_table ([] @ []) [read_song (example_song\<lparr>artist_name := None\<rparr>)]"
proof -
  have h: "artist (cast_userId cast_digits (read_log (example_log\<lparr>artist := None\<rparr>))) = None"
    by (simp add: cast_userId_def read_log_def)
  show ?thesis
    using h null_join_key_no_songplay [of "cast_userId cast_digits (read_log (example_log\<lparr>artist := None\<rparr>))"
        1541110148796000 "[read_song (example_song\<lparr>artist_name := None\<rparr>)]" "[]" "[]"]
    by blast
qed

section \<open>Decimal columns\<close>

lemma to_decimal_scale:
  "to_decimal (DecimalType p s) x = Some d \<Longrightarrow> scale d = s"
  by (auto simp: to_decimal_def Let_def split: if_splits)

lemma type_of_field_song:
  "type_of_field song_schema ''artist_latitude'' = Some (DecimalType 10 0)"
  "type_of_field song_schema ''artist_longitude'' = Some (DecimalType 10 0)"
  "type_of_field song_schema ''duration'' = Some (DecimalType 10 0)"
  by (simp_all add: type_of_field_def song_schema_def Decimal_def)

lemma type_of_field_log:
  "type_of_field log_schema ''length'' = Some (DecimalType 10 0)"
  by (simp add: type_of_field_def log_schema_def Decimal_def)

lemma read_decimal_scale:
  "type_of_field schema n = Some (DecimalType p s) \<Longrightarrow> read_decimal schema n v = Some d \<Longrightarrow>
     scale d = s"
  by (auto simp: read_decimal_def split: option.splits dest: to_decimal_scale)

lemma scale_zero_value: "scale d = 0 \<Longrightarrow> dec_value d = of_int (unscaled d)"
  by (simp add: dec_value_def)

lemma scale_zero_Dec: "scale d = 0 \<Longrightarrow> d = Dec (unscaled d) 0"
  by (cases d) simp

text \<open>
  Claim C9. The decimal columns of the two schemas are artist\_latitude, artist\_longitude
  and duration for songs and length for logs, each declared with precision 10 and scale 0.
  So whatever record is read, a value stored in one of them has scale 0 (no fractional
  digit: it is the integer that is its unscaled value), and the comparison of length with
  duration in the songplays join is true exactly when both hold the same integer at scale 0.
\<close>

theorem decimal_columns_scale_zero:
  "decimal_fields song_schema = [''artist_latitude'', ''artist_longitude'', ''duration''] \<and>
   decimal_fields log_schema = [''length''] \<and>
   (\<forall>f \<in> set (song_schema @ log_schema).
      is_decimal (field_type f) \<longrightarrow> field_type f = DecimalType 10 0) \<and>
   (\<forall>d. artist_latitude (read_song r) = Some d \<or> artist_longitude (read_song r) = Some d \<or>
        duration (read_song r) = Some d \<or> song_length (read_log l) = Some d \<longrightarrow>
        scale d = 0 \<and> dec_value d = of_int (unscaled d)) \<and>
   (is_true (sql_eq (song_length (read_log l)) (duration (read_song r))) \<longleftrightarrow>
      (\<exists>u. song_length (read_log l) = Some (Dec u 0) \<and> duration (read_song r) = Some (Dec u 0)))"
proof -
  have a: "decimal_fields song_schema = [''artist_latitude'', ''artist_longitude'', ''duration'']"
    by (simp add: decimal_fields_def song_schema_def is_decimal_def Decimal_def Int_t_def Str_def)
  have b: "decimal_fields log_schema = [''length'']"
    by (simp add: decimal_fields_def log_schema_def is_decimal_def Decimal_def Int_t_def Str_def
          Long_def)
  have c: "\<forall>f \<in> set (song_schema @ log_schema).
      is_decimal (field_type f) \<longrightarrow> field_type f = DecimalType 10 0"
    by (simp add: song_schema_def log_schema_def is_decimal_def Decimal_def Int_t_def Str_def
          Long_def)
  have s: "scale d = 0" if "artist_latitude (read_song r) = Some d \<or>
        artist_longitude (read_song r) = Some d \<or>
        duration (read_song r) = Some d \<or> song_length (read_log l) = Some d" for d
    using that
    by (auto simp: read_song_def read_log_def
          dest: read_decimal_scale [OF type_of_field_song(1)] read_decimal_scale [OF type_of_field_song(2)]
                read_decimal_scale [OF type_of_field_song(3)] read_decimal_scale [OF type_of_field_log])
  have d: "\<forall>d. artist_latitude (read_song r) = Some d \<or> artist_longitude (read_song r) = Some d \<or>
        duration (read_song r) = Some d \<or> song_length (read_log l) = Some d \<longrightarrow>
        scale d = 0 \<and> dec_value d = of_int (unscaled d)"
    using s scale_zero_value by blast
  have e: "is_true (sql_eq (song_length (read_log l)) (duration (read_song r))) \<longleftrightarrow>
      (\<exists>u. song_length (read_log l) = Some (Dec u 0) \<and> duration (read_song r) = Some (Dec u 0))"
    unfolding is_true_sql_eq using s scale_zero_Dec by metis
  from a b c d e show ?thesis by blast
qed

theorem decimal_columns_scale_zero_witness:
  "duration (read_song example_song) = Some (Dec 211 0) \<and>
   song_length (read_log example_log) = Some (Dec 211 0) \<and>
   scale (Dec 211 0) = 0 \<and> dec_value (Dec 211 0) = of_int (unscaled (Dec 211 0)) \<and>
   is_true (sql_eq (song_length (read_log example_log)) (duration (read_song example_song)))"
proof -
  have h1: "duration (read_song example_song) = Some (Dec 211 0)"
    by (simp add: read_song_def example_song_def read_decimal_def type_of_field_song
          to_decimal_def round_half_up_def)
  have h2: "song_length (read_log example_log) = Some (Dec 211 0)"
    by (simp add: read_log_def example_log_def read_decimal_def type_of_field_log
          to_decimal_def round_half_up_def)
  show ?thesis
    using h1 h2 decimal_columns_scale_zero [of example_song example_log]
    by blast
qed

section \<open>The users table\<close>

lemma kept_in_filter_cast:
  "e \<in> set logs \<Longrightarrow> page e = Some ''NextSong'' \<Longrightarrow> userId e = Some u \<Longrightarrow> u \<noteq> [] \<Longrightarrow>
     cast_userId cast_int e \<in> set (filter_cast cast_int logs)"
  by (simp add: set_filter_cast is_true_where_cond)

lemma select_user_cast:
  "userId e = Some u \<Longrightarrow>
     select_user (cast_userId cast_int e) = (cast_int u, firstName e, lastName e, gender e, level e)"
  by (simp add: select_user_def cast_userId_def)

lemma count_users_table:
  "count_list (users_table df) r = (if r \<in> select_user ` set df then 1 else 0)"
  by (simp add: users_table_def dropDuplicates_def count_list_remdups)

text \<open>
  Claim C8. When two filtered log records of one user agree on userId, firstName, lastName
  and gender, and one has level "free" and the other level "paid", the users table has the
  row with "free" once and the row with "paid" once, and these are two different rows: the
  duplicates are dropped on the whole tuple and the level is not collapsed.
\<close>

theorem users_free_and_paid_rows:
  assumes "e1 \<in> set logs" and "e2 \<in> set logs"
    and "page e1 = Some ''NextSong''" and "page e2 = Some ''NextSong''"
    and "userId e1 = Some u" and "userId e2 = Some u" and "u \<noteq> []"
    and "firstName e2 = firstName e1" and "lastName e2 = lastName e1" and "gender e2 = gender e1"
    and "level e1 = Some ''free''" and "level e2 = Some ''paid''"
  shows "count_list (users_table (filter_cast cast_int logs))
           (cast_int u, firstName e1, lastName e1, gender e1, Some ''free'') = 1 \<and>
         count_list (users_table (filter_cast cast_int logs))
           (cast_int u, firstName e1, lastName e1, gender e1, Some ''paid'') = 1 \<and>
         (cast_int u, firstName e1, lastName e1, gender e1, Some ''free'') \<noteq>
         (cast_int u, firstName e1, lastName e1, gender e1, Some ''paid'')"
proof -
  have "select_user (cast_userId cast_int e1) \<in> select_user ` set (filter_cast cast_int logs)"
    using assms by (intro imageI kept_in_filter_cast)
  moreover have "select_user (cast_userId cast_int e2) \<in> select_user ` set (filter_cast cast_int logs)"
    using assms by (intro imageI kept_in_filter_cast)
  ultimately show ?thesis
    using assms by (simp add: count_users_table select_user_cast)
qed

lemma cast_digits_10: "cast_digits ''10'' = Some 10"
  by (simp add: cast_digits_def digit_of_def)

theorem users_free_and_paid_rows_witness:
  "count_list (users_table (filter_cast cast_digits
      [read_log example_log, read_log (example_log\<lparr>level := Some ''paid''\<rparr>)]))
     (Some 10, Some ''Sylvie'', Some ''Cruz'', Some ''F'', Some ''free'') = 1 \<and>
   count_list (users_table (filter_cast cast_digits
      [read_log example_log, read_log (example_log\<lparr>level := Some ''paid''\<rparr>)]))
     (Some 10, Some ''Sylvie'', Some ''Cruz'', Some ''F'', Some ''paid'') = 1"
  using users_free_and_paid_rows [of "read_log example_log"
      "[read_log example_log, read_log (example_log\<lparr>level := Some ''paid''\<rparr>)]"
      "read_log (example_log\<lparr>level := Some ''paid''\<rparr>)" "''10''" cast_digits]
  by (simp add: read_log_def example_log_def cast_digits_10)

section \<open>Facts about doubles\<close>

lemma pow2_powi: "pow2 e = 2 powi e"
  by (simp add: pow2_def power_int_def power_inverse field_simps)

lemma floor_rat_numeral: "\<lfloor>numeral a / numeral b :: rat\<rfloor> = numeral a div numeral b"
  by (metis floor_divide_of_int_eq of_int_numeral)

lemma pow2_pos [simp]: "0 < pow2 e"
  by (simp add: pow2_powi)

lemma pow2_add: "pow2 (a + b) = pow2 a * pow2 b"
  by (simp add: pow2_powi power_int_add)

lemma pow2_mono: "a \<le> b \<Longrightarrow> pow2 a \<le> pow2 b"
  unfolding pow2_powi by (rule power_int_increasing) simp_all

lemma pow2_strict_mono: "a < b \<Longrightarrow> pow2 a < pow2 b"
  unfolding pow2_powi by (rule power_int_strict_increasing) simp_all

lemma pow2_less_iff: "pow2 a < pow2 b \<longleftrightarrow> a < b"
proof
  assume h: "pow2 a < pow2 b"
  show "a < b"
  proof (rule ccontr)
    assume "\<not> a < b"
    then have "pow2 b \<le> pow2 a" by (intro pow2_mono) simp
    with h show False by simp
  qed
qed (rule pow2_strict_mono)

lemma pow2_of_nat: "pow2 (int n) = 2 ^ n"
  by (simp add: pow2_def)

lemma pow2_pred: "1 \<le> k \<Longrightarrow> pow2 (int k - 1) = 2 ^ (k - 1)"
  by (cases k) (simp_all add: pow2_def)

lemma ilog2_bounds:
  assumes "0 < x"
  shows "pow2 (ilog2 x) \<le> x \<and> x < pow2 (ilog2 x + 1)"
proof -
  obtain n d where q: "quotient_of x = (n, d)" by (cases "quotient_of x")
  have d: "0 < d" using q by (rule quotient_of_denom_pos)
  have x: "x = of_int n / of_int d" using q by (rule quotient_of_div)
  have n: "0 < n" using assms d x by (simp add: zero_less_divide_iff)
  define fn where "fn = floorlog 2 (nat n)"
  define fd where "fd = floorlog 2 (nat d)"
  have bn: "2 ^ (fn - 1) \<le> nat n" "nat n < 2 ^ fn"
    using floorlog_bounds [of "nat n" 2] n by (simp_all add: fn_def)
  have bd: "2 ^ (fd - 1) \<le> nat d" "nat d < 2 ^ fd"
    using floorlog_bounds [of "nat d" 2] d by (simp_all add: fd_def)
  have fn1: "1 \<le> fn" using n by (simp add: fn_def floorlog_def)
  have fd1: "1 \<le> fd" using d by (simp add: fd_def floorlog_def)
  have rn: "pow2 (int fn - 1) \<le> of_int n" "of_int n < pow2 (int fn)"
  proof -
    have nn: "(of_nat (nat n) :: rat) = of_int n" using n by simp
    have "of_nat (2 ^ (fn - 1)) \<le> (of_nat (nat n) :: rat)"
      using bn(1) by (simp only: of_nat_le_iff)
    then have "(2::rat) ^ (fn - 1) \<le> of_nat (nat n)" by simp
    then show "pow2 (int fn - 1) \<le> of_int n"
      unfolding nn pow2_pred [OF fn1] .
    have "(of_nat (nat n) :: rat) < of_nat (2 ^ fn)"
      using bn(2) by (simp only: of_nat_less_iff)
    then have "of_nat (nat n) < (2::rat) ^ fn" by simp
    then show "of_int n < pow2 (int fn)"
      unfolding nn pow2_of_nat .
  qed
  have rd: "pow2 (int fd - 1) \<le> of_int d" "of_int d < pow2 (int fd)"
  proof -
    have nn: "(of_nat (nat d) :: rat) = of_int d" using d by simp
    have "of_nat (2 ^ (fd - 1)) \<le> (of_nat (nat d) :: rat)"
      using bd(1) by (simp only: of_nat_le_iff)
    then have "(2::rat) ^ (fd - 1) \<le> of_nat (nat d)" by simp
    then show "pow2 (int fd - 1) \<le> of_int d"
      unfolding nn pow2_pred [OF fd1] .
    have "(of_nat (nat d) :: rat) < of_nat (2 ^ fd)"
      using bd(2) by (simp only: of_nat_less_iff)
    then have "of_nat (nat d) < (2::rat) ^ fd" by simp
    then show "of_int d < pow2 (int fd)"
      unfolding nn pow2_of_nat .
  qed
  define e0 where "e0 = int fn - int fd"
  have dpos: "(0::rat) < of_int d" using d by simp
  have up: "x < pow2 (e0 + 1)"
  proof -
    have "of_int n < pow2 (int fn)" by (rule rn(2))
    also have "pow2 (int fn) = pow2 (e0 + 1) * pow2 (int fd - 1)"
      by (simp add: e0_def pow2_add [symmetric])
    also have "\<dots> \<le> pow2 (e0 + 1) * of_int d"
      using rd(1) by (simp add: mult_left_mono)
    finally show ?thesis using dpos by (simp add: x pos_divide_less_eq)
  qed
  have lo: "pow2 (e0 - 1) \<le> x"
  proof -
    have "pow2 (e0 - 1) * of_int d \<le> pow2 (e0 - 1) * pow2 (int fd)"
      using rd(2) by (simp add: mult_left_mono)
    also have "\<dots> = pow2 (int fn - 1)"
      by (simp add: e0_def pow2_add [symmetric])
    also have "\<dots> \<le> of_int n" by (rule rn(1))
    finally show ?thesis using dpos by (simp add: x pos_le_divide_eq)
  qed
  have i: "ilog2 x = (if pow2 e0 \<le> x then e0 else e0 - 1)"
    by (simp add: ilog2_def q e0_def fn_def fd_def Let_def)
  show ?thesis
  proof (cases "pow2 e0 \<le> x")
    case True
    then show ?thesis using up i by simp
  next
    case False
    then show ?thesis using lo i by simp
  qed
qed

lemma ilog2_eqI:
  assumes "pow2 e \<le> x" and "x < pow2 (e + 1)"
  shows "ilog2 x = e"
proof -
  have "0 < x" using assms(1) pow2_pos [of e] by linarith
  then have b: "pow2 (ilog2 x) \<le> x" "x < pow2 (ilog2 x + 1)"
    using ilog2_bounds by blast+
  have "pow2 e < pow2 (ilog2 x + 1)" using assms(1) b(2) by linarith
  then have "e < ilog2 x + 1" by (simp add: pow2_less_iff)
  moreover have "pow2 (ilog2 x) < pow2 (e + 1)" using assms(2) b(1) by linarith
  then have "ilog2 x < e + 1" by (simp add: pow2_less_iff)
  ultimately show ?thesis by simp
qed

lemma to_double_eqI:
  assumes "pow2 e \<le> x" and "x < pow2 (e + 1)"
  shows "to_double x = of_int (round_half_even (x / pow2 (e - 52))) * pow2 (e - 52)"
proof -
  have "0 < x" using assms(1) pow2_pos [of e] by linarith
  then show ?thesis
    using ilog2_eqI [OF assms] by (simp add: to_double_def Let_def)
qed

lemma to_double_example: "to_double (1541110148796 / 1000) = 3231942230767829 / 2097152"
proof -
  have "to_double (1541110148796 / 1000) =
          of_int (round_half_even ((1541110148796 / 1000) / pow2 (30 - 52))) * pow2 (30 - 52)"
    by (rule to_double_eqI) (simp_all add: pow2_def)
  also have "\<dots> = 3231942230767829 / 2097152"
    by (simp add: pow2_def round_half_even_def Let_def floor_rat_numeral)
  finally show ?thesis .
qed

lemma to_double_example2: "to_double (26083328125 / 32768) = 26083328125 / 32768"
proof -
  have "to_double (26083328125 / 32768) =
          of_int (round_half_even ((26083328125 / 32768) / pow2 (19 - 52))) * pow2 (19 - 52)"
    by (rule to_double_eqI) (simp_all add: pow2_def)
  also have "\<dots> = 26083328125 / 32768"
    by (simp add: pow2_def round_half_even_def Let_def floor_rat_numeral)
  finally show ?thesis .
qed

lemma timeval_example:
  "timeval_of_double (3231942230767829 / 2097152) = (1541110148, 796000)"
proof -
  have t: "trunc (3231942230767829 / 2097152) = 1541110148"
    by (simp add: trunc_def floor_rat_numeral)
  have x: "(3231942230767829 / 2097152 - of_int 1541110148) * 1000000 = (26083328125 / 32768 :: rat)"
    by simp
  have r: "round_half_even (26083328125 / 32768) = 796000"
    by (simp add: round_half_even_def Let_def floor_rat_numeral)
  show ?thesis
    unfolding timeval_of_double_def t Let_def x to_double_example2 r by simp
qed

lemma civil_example: "civil_from_days 17836 = (2018, 11, 1)"
  by code_simp

lemma to_double_example_norm: "to_double (385277537199 / 250) = 3231942230767829 / 2097152"
  using to_double_example by simp

lemma get_datetime_example: "get_datetime utc (Some 1541110148796) = Inr 1541110148796000"
  by (simp add: get_datetime_def fromtimestamp_def to_double_example_norm timeval_example utc_def
        civil_example)

lemma select_time_example:
  "select_time 1541110148796000 = (1541110148796000, 22, 5, ''Thursday'', 1, 11, 2018, 3)"
  by (simp add: select_time_def sql_hour_def sql_dayofweek_def date_format_EEEE_def sql_day_def
        sql_month_def sql_year_def sql_weekday_def wall_seconds_def civil_example)

section \<open>The songplays table\<close>

lemma cast_userId_fields [simp]:
  "artist (cast_userId c e) = artist e"
  "song (cast_userId c e) = song e"
  "song_length (cast_userId c e) = song_length e"
  "ts (cast_userId c e) = ts e"
  "level (cast_userId c e) = level e"
  "sessionId (cast_userId c e) = sessionId e"
  "location (cast_userId c e) = location e"
  "userAgent (cast_userId c e) = userAgent e"
  "page (cast_userId c e) = page e"
  by (simp_all add: cast_userId_def)

lemma join_cond_cast [simp]: "join_cond (cast_userId c e) s = join_cond e s"
  by (simp add: join_cond_def)

lemma select_songplay_cast:
  "userId e = Some u \<Longrightarrow>
     select_songplay (cast_userId c e, dt) s =
       (ts e, sql_month dt, sql_year dt, c u, level e, song_id s, artist_id s,
        sessionId e, location e, userAgent e)"
  by (simp add: select_songplay_def) (simp add: cast_userId_def)

lemma read_log_example:
  "read_log example_log =
     \<lparr>artist = Some ''Band'', auth = Some ''Logged In'', firstName = Some ''Sylvie'',
      gender = Some ''F'', itemInSession = Some 0, lastName = Some ''Cruz'',
      song_length = Some (Dec 211 0), level = Some ''free'', location = None,
      http_method = Some ''PUT'', page = Some ''NextSong'', registration = None,
      sessionId = Some 1, song = Some ''T1'', status = Some 200, ts = Some 1541110148796,
      userAgent = None, userId = Some ''10''\<rparr>"
  by (simp add: read_log_def example_log_def read_decimal_def type_of_field_log
        to_decimal_def round_half_up_def read_integer_log)

lemma read_song_example:
  "read_song example_song =
     \<lparr>num_songs = Some 1, artist_id = Some ''ARA'', artist_latitude = None,
      artist_longitude = None, artist_location = None, artist_name = Some ''Band'',
      song_id = Some ''SOA'', title = Some ''T1'', duration = Some (Dec 211 0),
      year = Some 2003\<rparr>"
  by (simp add: read_song_def example_song_def read_decimal_def type_of_field_song
        to_decimal_def round_half_up_def read_integer_song)

lemma example_filtered:
  "filter_cast cast_digits [read_log example_log] = [cast_userId cast_digits (read_log example_log)]"
  by (simp add: filter_cast_def is_true_where_cond read_log_example)

lemma example_with_datetime:
  "with_datetime utc (filter_cast cast_digits [read_log example_log]) =
     Inr [(cast_userId cast_digits (read_log example_log), 1541110148796000)]"
proof -
  have "ts (cast_userId cast_digits (read_log example_log)) = Some 1541110148796"
    by (simp add: read_log_example)
  then show ?thesis
    by (simp add: example_filtered get_datetime_example)
qed

lemma sql_month_year_example:
  "sql_month 1541110148796000 = 11" "sql_year 1541110148796000 = 2018"
  by (simp_all add: sql_month_def sql_year_def wall_seconds_def civil_example)

text \<open>
  Claim C1. Let the datetime column be computed for the filtered log records. A row is in
  the songplays table exactly when some log record that passes the filter (page is
  "NextSong", userId is neither null nor empty) and some song record agree on
  artist = artist\_name, length = duration and song = title, each of the three non-null and
  equal, and the row is (ts, month and year of the record's datetime, the cast userId,
  level, song\_id, artist\_id, sessionId, location, userAgent) of that pair. A filtered
  record without such a song record thus adds no row, and no row occurs twice.
\<close>

theorem songplays_iff_match:
  assumes "with_datetime tz (filter_cast cast_int logs) = Inr dfd"
  shows "(r \<in> set (songplays_table dfd songs) \<longleftrightarrow>
           (\<exists>e\<in>set logs. \<exists>s\<in>set songs. \<exists>u a l t dt.
              page e = Some ''NextSong'' \<and> userId e = Some u \<and> u \<noteq> [] \<and>
              artist e = Some a \<and> artist_name s = Some a \<and>
              song_length e = Some l \<and> duration s = Some l \<and>
              song e = Some t \<and> title s = Some t \<and>
              get_datetime tz (ts e) = Inr dt \<and>
              r = (ts e, sql_month dt, sql_year dt, cast_int u, level e, song_id s, artist_id s,
                   sessionId e, location e, userAgent e))) \<and>
         distinct (songplays_table dfd songs)"
proof (intro conjI iffI)
  assume "r \<in> set (songplays_table dfd songs)"
  then obtain p s where p: "p \<in> set dfd" "s \<in> set songs" "is_true (join_cond (fst p) s)"
    "r = select_songplay p s"
    unfolding in_songplays_table by blast
  obtain e' dt where pe: "p = (e', dt)" by (cases p)
  from p(1) pe have "e' \<in> set (filter_cast cast_int logs)" "get_datetime tz (ts e') = Inr dt"
    using with_datetime_set [OF assms] by auto
  then obtain e where e: "e \<in> set logs" "is_true (where_cond e)" "e' = cast_userId cast_int e"
    unfolding set_filter_cast by blast
  from e(2) obtain u where u: "page e = Some ''NextSong''" "userId e = Some u" "u \<noteq> []"
    unfolding is_true_where_cond by blast
  from p(3) pe e(3) obtain a l t where m:
    "artist e = Some a" "artist_name s = Some a" "song_length e = Some l" "duration s = Some l"
    "song e = Some t" "title s = Some t"
    by (auto simp: is_true_join_cond)
  have "r = (ts e, sql_month dt, sql_year dt, cast_int u, level e, song_id s, artist_id s,
             sessionId e, location e, userAgent e)"
    using p(4) pe e(3) select_songplay_cast [OF u(2)] by simp
  moreover have "get_datetime tz (ts e) = Inr dt"
    using \<open>get_datetime tz (ts e') = Inr dt\<close> e(3) by simp
  ultimately show "\<exists>e\<in>set logs. \<exists>s\<in>set songs. \<exists>u a l t dt.
              page e = Some ''NextSong'' \<and> userId e = Some u \<and> u \<noteq> [] \<and>
              artist e = Some a \<and> artist_name s = Some a \<and>
              song_length e = Some l \<and> duration s = Some l \<and>
              song e = Some t \<and> title s = Some t \<and>
              get_datetime tz (ts e) = Inr dt \<and>
              r = (ts e, sql_month dt, sql_year dt, cast_int u, level e, song_id s, artist_id s,
                   sessionId e, location e, userAgent e)"
    using e(1) p(2) u m by blast
next
  assume "\<exists>e\<in>set logs. \<exists>s\<in>set songs. \<exists>u a l t dt.
              page e = Some ''NextSong'' \<and> userId e = Some u \<and> u \<noteq> [] \<and>
              artist e = Some a \<and> artist_name s = Some a \<and>
              song_length e = Some l \<and> duration s = Some l \<and>
              song e = Some t \<and> title s = Some t \<and>
              get_datetime tz (ts e) = Inr dt \<and>
              r = (ts e, sql_month dt, sql_year dt, cast_int u, level e, song_id s, artist_id s,
                   sessionId e, location e, userAgent e)"
  then obtain e s u a l t dt where h: "e \<in> set logs" "s \<in> set songs"
    "page e = Some ''NextSong''" "userId e = Some u" "u \<noteq> []"
    "artist e = Some a" "artist_name s = Some a" "song_length e = Some l" "duration s = Some l"
    "song e = Some t" "title s = Some t" "get_datetime tz (ts e) = Inr dt"
    "r = (ts e, sql_month dt, sql_year dt, cast_int u, level e, song_id s, artist_id s,
          sessionId e, location e, userAgent e)"
    by blast
  have "cast_userId cast_int e \<in> set (filter_cast cast_int logs)"
    using h by (intro kept_in_filter_cast)
  then have "(cast_userId cast_int e, dt) \<in> set dfd"
    using with_datetime_set [OF assms] h(12) by simp
  moreover have "is_true (join_cond (fst (cast_userId cast_int e, dt)) s)"
    using h by (simp add: is_true_join_cond)
  moreover have "r = select_songplay (cast_userId cast_int e, dt) s"
    using h(13) select_songplay_cast [OF h(4)] by simp
  ultimately show "r \<in> set (songplays_table dfd songs)"
    unfolding in_songplays_table using h(2) by blast
next
  show "distinct (songplays_table dfd songs)"
    by (simp add: songplays_table_def dropDuplicates_def)
qed

theorem songplays_iff_match_witness:
  "with_datetime utc (filter_cast cast_digits [read_log example_log]) =
     Inr [(cast_userId cast_digits (read_log example_log), 1541110148796000)] \<and>
   (Some 1541110148796, 11, 2018, Some 10, Some ''free'', Some ''SOA'', Some ''ARA'', Some 1, None, None)
     \<in> set (songplays_table [(cast_userId cast_digits (read_log example_log), 1541110148796000)]
              [read_song example_song]) \<and>
   distinct (songplays_table [(cast_userId cast_digits (read_log example_log), 1541110148796000)]
              [read_song example_song])"
proof -
  note t = songplays_iff_match [OF example_with_datetime,
      of "(Some 1541110148796, 11, 2018, Some 10, Some ''free'', Some ''SOA'', Some ''ARA'',
           Some 1, None, None)" "[read_song example_song]"]
  have m: "\<exists>e\<in>set [read_log example_log]. \<exists>s\<in>set [read_song example_song]. \<exists>u a l t dt.
              page e = Some ''NextSong'' \<and> userId e = Some u \<and> u \<noteq> [] \<and>
              artist e = Some a \<and> artist_name s = Some a \<and>
              song_length e = Some l \<and> duration s = Some l \<and>
              song e = Some t \<and> title s = Some t \<and>
              get_datetime utc (ts e) = Inr dt \<and>
              (Some 1541110148796, 11, 2018, Some 10, Some ''free'', Some ''SOA'', Some ''ARA'',
               Some 1, None, None) =
              (ts e, sql_month dt, sql_year dt, cast_digits u, level e, song_id s, artist_id s,
                   sessionId e, location e, userAgent e)"
    by (simp add: read_log_example read_song_example
          get_datetime_example sql_month_year_example cast_digits_10)
  have r: "(Some 1541110148796, 11, 2018, Some 10, Some ''free'', Some ''SOA'', Some ''ARA'', Some 1, None, None)
     \<in> set (songplays_table [(cast_userId cast_digits (read_log example_log), 1541110148796000)]
              [read_song example_song])"
    using m by (rule t [THEN conjunct1, THEN iffD2])
  show ?thesis
    by (intro conjI example_with_datetime r t [THEN conjunct2])
qed

section \<open>The number of songplays rows\<close>

lemma length_dropDuplicates: "length (dropDuplicates xs) \<le> length xs"
  by (simp add: dropDuplicates_def)

lemma length_join_rows_matched:
  assumes "\<forall>e\<in>set logs. length (filter (\<lambda>s. is_true (join_cond (fst e) s)) songs) \<le> 1"
  shows "length (join_rows logs songs) = length (matched_logs logs songs)"
  using assms
proof (induction logs)
  case Nil
  then show ?case by (simp add: join_rows_def matched_logs_def)
next
  case (Cons e es)
  have ih: "length (join_rows es songs) = length (matched_logs es songs)"
    using Cons by simp
  have one: "length (filter (\<lambda>s. is_true (join_cond (fst e) s)) songs) \<le> 1"
    using Cons.prems by simp
  have split: "length (join_rows (e # es) songs) =
      length (filter (\<lambda>s. is_true (join_cond (fst e) s)) songs) + length (join_rows es songs)"
    by (simp add: join_rows_def)
  show ?case
  proof (cases "list_ex (\<lambda>s. is_true (join_cond (fst e) s)) songs")
    case True
    then have "filter (\<lambda>s. is_true (join_cond (fst e) s)) songs \<noteq> []"
      by (simp add: list_ex_iff filter_empty_conv)
    then have "length (filter (\<lambda>s. is_true (join_cond (fst e) s)) songs) = 1"
      using one by (cases "filter (\<lambda>s. is_true (join_cond (fst e) s)) songs") auto
    then show ?thesis using True split ih by (simp add: matched_logs_def)
  next
    case False
    then have "filter (\<lambda>s. is_true (join_cond (fst e) s)) songs = []"
      by (simp add: list_ex_iff filter_empty_conv)
    then show ?thesis using False split ih by (simp add: matched_logs_def)
  qed
qed

lemma read_song_example_SOB:
  "read_song (example_song\<lparr>song_id := Some ''SOB''\<rparr>) =
     \<lparr>num_songs = Some 1, artist_id = Some ''ARA'', artist_latitude = None,
      artist_longitude = None, artist_location = None, artist_name = Some ''Band'',
      song_id = Some ''SOB'', title = Some ''T1'', duration = Some (Dec 211 0),
      year = Some 2003\<rparr>"
  by (simp add: read_song_def example_song_def read_decimal_def type_of_field_song
        to_decimal_def round_half_up_def read_integer_song)

lemma example_join_cond:
  "is_true (join_cond (read_log example_log) (read_song example_song))"
  "is_true (join_cond (read_log example_log) (read_song (example_song\<lparr>song_id := Some ''SOB''\<rparr>)))"
  by (simp_all add: is_true_join_cond read_log_example read_song_example read_song_example_SOB)

lemma example_two_songplays:
  "songplays_table [(cast_userId cast_digits (read_log example_log), 1541110148796000)]
     [read_song example_song, read_song (example_song\<lparr>song_id := Some ''SOB''\<rparr>)] =
   [(Some 1541110148796, 11, 2018, Some 10, Some ''free'', Some ''SOA'', Some ''ARA'', Some 1, None, None),
    (Some 1541110148796, 11, 2018, Some 10, Some ''free'', Some ''SOB'', Some ''ARA'', Some 1, None, None)]"
  by (simp add: songplays_table_def join_rows_def example_join_cond dropDuplicates_def
        select_songplay_def sql_month_year_example)
     (simp add: read_log_example read_song_example read_song_example_SOB cast_userId_def
        cast_digits_10)

text \<open>
  Claim C6, as amended. The songplays table has at most as many rows as there are pairs of
  a filtered log record and a song record that satisfy the join condition. When no filtered
  log record matches more than one song record, this is the number of filtered log records
  that have a match. As the claim is worded (at most the number of filtered log records
  with a match, whatever the songs) it fails: one play matching two song records with
  different song\_id gives two rows.
\<close>

theorem songplays_count_bound:
  "length (songplays_table logs songs) \<le> length (join_rows logs songs) \<and>
   ((\<forall>e\<in>set logs. length (filter (\<lambda>s. is_true (join_cond (fst e) s)) songs) \<le> 1) \<longrightarrow>
    length (songplays_table logs songs) \<le> length (matched_logs logs songs))"
proof -
  have a: "length (songplays_table logs songs) \<le> length (join_rows logs songs)"
    unfolding songplays_table_def using length_dropDuplicates [of "map (\<lambda>r. select_songplay (fst r) (snd r)) (join_rows logs songs)"]
    by simp
  then show ?thesis using length_join_rows_matched [of logs songs] by auto
qed

theorem songplays_count_counterexample:
  "\<not> length (songplays_table [(cast_userId cast_digits (read_log example_log), 1541110148796000)]
          [read_song example_song, read_song (example_song\<lparr>song_id := Some ''SOB''\<rparr>)])
      \<le> length (matched_logs [(cast_userId cast_digits (read_log example_log), 1541110148796000)]
          [read_song example_song, read_song (example_song\<lparr>song_id := Some ''SOB''\<rparr>)])"
  by (simp add: example_two_songplays matched_logs_def example_join_cond)

theorem songplays_count_bound_witness:
  "length (filter (\<lambda>s. is_true (join_cond (cast_userId cast_digits (read_log example_log)) s))
      [read_song example_song]) \<le> 1 \<and>
   length (songplays_table [(cast_userId cast_digits (read_log example_log), 1541110148796000)]
          [read_song example_song])
      \<le> length (matched_logs [(cast_userId cast_digits (read_log example_log), 1541110148796000)]
          [read_song example_song])"
proof -
  have h: "length (filter (\<lambda>s. is_true (join_cond (cast_userId cast_digits (read_log example_log)) s))
      [read_song example_song]) \<le> 1"
    by simp
  then have "\<forall>e\<in>set [(cast_userId cast_digits (read_log example_log), 1541110148796000 :: int)].
      length (filter (\<lambda>s. is_true (join_cond (fst e) s)) [read_song example_song]) \<le> 1"
    by simp
  then show ?thesis
    using h songplays_count_bound [of "[(cast_userId cast_digits (read_log example_log), 1541110148796000)]"
      "[read_song example_song]"]
    by blast
qed

section \<open>The filter of the log transform\<close>

lemma read_log_page_userId [simp]:
  "page (read_log e) = page e" "userId (read_log e) = userId e"
  "firstName (read_log e) = firstName e" "lastName (read_log e) = lastName e"
  "gender (read_log e) = gender e" "level (read_log e) = level e"
  by (simp_all add: read_log_def)

lemma where_cond_excluded:
  "page e \<noteq> Some ''NextSong'' \<or> userId e = Some '''' \<Longrightarrow> \<not> is_true (where_cond (read_log e))"
  by (auto simp: is_true_where_cond)

lemma filter_cast_excluded:
  assumes "page e \<noteq> Some ''NextSong'' \<or> userId e = Some ''''"
  shows "filter_cast c (map read_log (xs @ e # ys)) = filter_cast c (map read_log (xs @ ys))"
  using where_cond_excluded [OF assms] by (simp add: filter_cast_def)

lemma process_log_data_log_data:
  "filter_cast c (map read_log (log_data i1)) = filter_cast c (map read_log (log_data i2)) \<Longrightarrow>
   process_log_data tz c i1 out st = process_log_data tz c i2 out st"
  by (simp add: process_log_data_def)

lemma in_time_table:
  "with_datetime tz df = Inr dfd \<Longrightarrow> e \<in> set df \<Longrightarrow>
     \<exists>dt. get_datetime tz (ts e) = Inr dt \<and> select_time dt \<in> set (time_table dfd)"
proof -
  assume w: "with_datetime tz df = Inr dfd" and e: "e \<in> set df"
  have "e \<in> set (map fst dfd)" using with_datetime_fst [OF w] e by simp
  then obtain dt where d: "(e, dt) \<in> set dfd" by auto
  then have "get_datetime tz (ts e) = Inr dt" using with_datetime_set [OF w] by simp
  moreover have "select_time dt \<in> set (time_table dfd)"
    using d by (force simp: time_table_def)
  ultimately show ?thesis by blast
qed

lemma read_log_ts_example:
  "ts (read_log example_log) = Some 1541110148796"
  "ts (read_log (example_log\<lparr>userId := Some ''26''\<rparr>)) = Some 1541110148796"
  by (simp_all add: read_log_def example_log_def read_integer_log)

lemma example_log_fields:
  "ts example_log = Some 1541110148796" "level example_log = Some ''free''"
  "page example_log = Some ''NextSong''" "userId example_log = Some ''10''"
  "sessionId example_log = Some 1" "location example_log = None" "userAgent example_log = None"
  by (simp_all add: example_log_def)

lemma example_with_datetime_cast:
  "with_datetime utc [cast_userId cast_digits (read_log example_log)] =
     Inr [(cast_userId cast_digits (read_log example_log), 1541110148796000)]"
  using example_with_datetime by (simp add: example_filtered)

text \<open>
  Claim C2. A log record whose page is not "NextSong" or whose userId is the empty string
  is dropped by the filter: alone it leaves the filtered records empty, and the log
  transform gives the same result (users, time and songplays) with or without it. A record
  whose page is "NextSong" and whose userId is a non-empty string is kept, its userId is
  the cast of that string to an integer, its row is in the users table, and the row of its
  datetime is in the time table.
\<close>

theorem log_filter_excludes_and_keeps:
  "((page e \<noteq> Some ''NextSong'' \<or> userId e = Some '''') \<longrightarrow>
      filter_cast cast_int [read_log e] = [] \<and>
      process_log_data tz cast_int (input_data\<lparr>log_data := xs @ e # ys\<rparr>) output_data st =
      process_log_data tz cast_int (input_data\<lparr>log_data := xs @ ys\<rparr>) output_data st) \<and>
   (page e = Some ''NextSong'' \<and> userId e = Some u \<and> u \<noteq> [] \<and> e \<in> set (log_data input_data) \<longrightarrow>
      cast_userId cast_int (read_log e) \<in>
        set (filter_cast cast_int (map read_log (log_data input_data))) \<and>
      userId (cast_userId cast_int (read_log e)) = cast_int u \<and>
      (cast_int u, firstName e, lastName e, gender e, level e) \<in>
        set (users_table (filter_cast cast_int (map read_log (log_data input_data)))) \<and>
      (\<forall>dfd. with_datetime tz (filter_cast cast_int (map read_log (log_data input_data))) = Inr dfd \<longrightarrow>
         (\<exists>dt. get_datetime tz (ts (read_log e)) = Inr dt \<and>
            select_time dt \<in> set (time_table dfd))))"
proof (intro conjI impI)
  assume x: "page e \<noteq> Some ''NextSong'' \<or> userId e = Some ''''"
  show "filter_cast cast_int [read_log e] = []"
    using where_cond_excluded [OF x] by (simp add: filter_cast_def)
  show "process_log_data tz cast_int (input_data\<lparr>log_data := xs @ e # ys\<rparr>) output_data st =
      process_log_data tz cast_int (input_data\<lparr>log_data := xs @ ys\<rparr>) output_data st"
    using filter_cast_excluded [OF x, of cast_int xs ys]
    by (intro process_log_data_log_data) simp
next
  assume k: "page e = Some ''NextSong'' \<and> userId e = Some u \<and> u \<noteq> [] \<and> e \<in> set (log_data input_data)"
  have m: "read_log e \<in> set (map read_log (log_data input_data))" using k by simp
  show in_df: "cast_userId cast_int (read_log e) \<in>
        set (filter_cast cast_int (map read_log (log_data input_data)))"
    using k by (intro kept_in_filter_cast [OF m, of u]) simp_all
  show "userId (cast_userId cast_int (read_log e)) = cast_int u"
    using k by (simp add: cast_userId_def)
  have "select_user (cast_userId cast_int (read_log e)) =
          (cast_int u, firstName e, lastName e, gender e, level e)"
    using k select_user_cast [of "read_log e" u cast_int] by simp
  then show "(cast_int u, firstName e, lastName e, gender e, level e) \<in>
        set (users_table (filter_cast cast_int (map read_log (log_data input_data))))"
    using in_df by (force simp: users_table_def dropDuplicates_def)
  show "\<forall>dfd. with_datetime tz (filter_cast cast_int (map read_log (log_data input_data))) = Inr dfd \<longrightarrow>
         (\<exists>dt. get_datetime tz (ts (read_log e)) = Inr dt \<and>
            select_time dt \<in> set (time_table dfd))"
  proof (intro allI impI)
    fix dfd
    assume w: "with_datetime tz (filter_cast cast_int (map read_log (log_data input_data))) = Inr dfd"
    show "\<exists>dt. get_datetime tz (ts (read_log e)) = Inr dt \<and>
            select_time dt \<in> set (time_table dfd)"
      using in_time_table [OF w in_df] by simp
  qed
qed

theorem log_filter_excludes_and_keeps_witness:
  "page (example_log\<lparr>page := Some ''Home''\<rparr>) = Some ''Home'' \<and>
   filter_cast cast_digits [read_log (example_log\<lparr>page := Some ''Home''\<rparr>)] = [] \<and>
   process_log_data utc cast_digits
     (example_input\<lparr>log_data := [example_log] @ example_log\<lparr>page := Some ''Home''\<rparr> # []\<rparr>)
     ''s3a://sparkify-data-lake-p4/'' (create_spark_session Map.empty) =
   process_log_data utc cast_digits (example_input\<lparr>log_data := [example_log] @ []\<rparr>)
     ''s3a://sparkify-data-lake-p4/'' (create_spark_session Map.empty) \<and>
   (page example_log = Some ''NextSong'' \<and> userId example_log = Some ''10'' \<and> ''10'' \<noteq> [] \<and>
    example_log \<in> set (log_data example_input)) \<and>
   userId (cast_userId cast_digits (read_log example_log)) = Some 10 \<and>
   (Some 10, Some ''Sylvie'', Some ''Cruz'', Some ''F'', Some ''free'') \<in>
     set (users_table (filter_cast cast_digits (map read_log (log_data example_input)))) \<and>
   (\<exists>dt. get_datetime utc (ts (read_log example_log)) = Inr dt \<and>
      select_time dt \<in> set (time_table
        [(cast_userId cast_digits (read_log example_log), 1541110148796000)]))"
proof -
  have x: "page (example_log\<lparr>page := Some ''Home''\<rparr>) \<noteq> Some ''NextSong'' \<or>
    userId (example_log\<lparr>page := Some ''Home''\<rparr>) = Some ''''"
    by simp
  have k: "page example_log = Some ''NextSong'' \<and> userId example_log = Some ''10'' \<and> ''10'' \<noteq> [] \<and>
    example_log \<in> set (log_data example_input)"
    by (simp add: example_log_fields example_input_def)
  have w: "with_datetime utc (filter_cast cast_digits (map read_log (log_data example_input))) =
      Inr [(cast_userId cast_digits (read_log example_log), 1541110148796000)]"
    using example_with_datetime by (simp add: example_input_def)
  note a = log_filter_excludes_and_keeps [where e = "example_log\<lparr>page := Some ''Home''\<rparr>"
      and cast_int = cast_digits and tz = utc and input_data = example_input
      and xs = "[example_log]" and ys = "[]" and output_data = "''s3a://sparkify-data-lake-p4/''"
      and st = "create_spark_session Map.empty", THEN conjunct1, rule_format, OF x]
  note b = log_filter_excludes_and_keeps [where e = example_log and u = "''10''"
      and cast_int = cast_digits and tz = utc and input_data = example_input,
      THEN conjunct2, rule_format, OF k]
  have u: "userId (cast_userId cast_digits (read_log example_log)) = Some 10"
    using b [THEN conjunct2, THEN conjunct1] by (simp add: cast_digits_10)
  have r: "(Some 10, Some ''Sylvie'', Some ''Cruz'', Some ''F'', Some ''free'') \<in>
     set (users_table (filter_cast cast_digits (map read_log (log_data example_input))))"
    using b [THEN conjunct2, THEN conjunct2, THEN conjunct1]
    by (simp add: cast_digits_10 example_log_def)
  have t: "\<exists>dt. get_datetime utc (ts (read_log example_log)) = Inr dt \<and>
      select_time dt \<in> set (time_table
        [(cast_userId cast_digits (read_log example_log), 1541110148796000)])"
    using b [THEN conjunct2, THEN conjunct2, THEN conjunct2, rule_format, OF w] .
  have h: "page (example_log\<lparr>page := Some ''Home''\<rparr>) = Some ''Home''"
    by simp
  show ?thesis
    using h a k u r t by blast
qed

section \<open>The whole run\<close>

lemma stored_unpartitioned:
  "stored_artist [] = (\<lambda>r. r)" "stored_user [] = (\<lambda>r. r)"
  "stored_songplay [''year'', ''month''] = (\<lambda>r. r)"
  by (simp_all add: fun_eq_iff stored_artist_def stored_user_def stored_songplay_def
        stored_col_def)

lemma main_result:
  "main tz c inp fs =
     (case with_datetime tz (filter_cast c (map read_log (log_data inp))) of
        Inl err \<Rightarrow> Inl err
      | Inr dfd \<Rightarrow>
          Inr (fs(''s3a://sparkify-data-lake-p4/songs.parquet'' \<mapsto>
                    Parquet [''year'', ''artist_id'']
                      (SongsT (image_mset (stored_song [''year'', ''artist_id''])
                         (mset (songs_table (map read_song (song_data inp)))))),
                  ''s3a://sparkify-data-lake-p4/artists.parquet'' \<mapsto>
                    Parquet [] (ArtistsT (mset (artists_table (map read_song (song_data inp))))),
                  ''s3a://sparkify-data-lake-p4/users.parquet'' \<mapsto>
                    Parquet []
                      (UsersT (mset (users_table (filter_cast c (map read_log (log_data inp)))))),
                  ''s3a://sparkify-data-lake-p4/time.parquet'' \<mapsto>
                    Parquet [''Year'', ''Month''] (TimeT (mset (time_table dfd))),
                  ''s3a://sparkify-data-lake-p4/songplays.parquet'' \<mapsto>
                    Parquet [''year'', ''month'']
                      (SongplaysT (mset (songplays_table dfd (map read_song (song_data inp))))))))"
  by (simp add: main_def process_song_data_def process_log_data_def write_overwrite_def
        create_spark_session_def Let_def stored_rows_def stored_unpartitioned
        split: sum.splits)

lemma example_songs_table:
  "songs_table [read_song example_song] =
     [(Some ''SOA'', Some ''T1'', Some ''ARA'', Some 2003, Some (Dec 211 0))]"
  by (simp add: songs_table_def dropDuplicates_def select_song_def read_song_example)

lemma example_artists_table:
  "artists_table [read_song example_song] = [(Some ''ARA'', Some ''Band'', None, None, None)]"
  by (simp add: artists_table_def dropDuplicates_def select_artist_def read_song_example)

lemma example_users_table:
  "users_table [cast_userId cast_digits (read_log example_log)] =
     [(Some 10, Some ''Sylvie'', Some ''Cruz'', Some ''F'', Some ''free'')]"
  by (simp add: users_table_def dropDuplicates_def select_user_def cast_userId_def
        read_log_example cast_digits_10)

lemma example_time_table:
  "time_table [(cast_userId cast_digits (read_log example_log), 1541110148796000)] =
     [(1541110148796000, 22, 5, ''Thursday'', 1, 11, 2018, 3)]"
  by (simp add: time_table_def select_time_example)

lemma example_songplays_table:
  "songplays_table [(cast_userId cast_digits (read_log example_log), 1541110148796000)]
     [read_song example_song] =
   [(Some 1541110148796, 11, 2018, Some 10, Some ''free'', Some ''SOA'', Some ''ARA'', Some 1, None, None)]"
  by (simp add: songplays_table_def join_rows_def example_join_cond dropDuplicates_def
        select_songplay_def sql_month_year_example)
     (simp add: read_log_example read_song_example cast_userId_def cast_digits_10
        example_log_fields)

lemma example_main: "main utc cast_digits example_input Map.empty = Inr example_output"
  unfolding main_result
  by (simp add: example_input_def example_filtered example_log_fields read_log_ts_example
        get_datetime_example example_songs_table
        example_artists_table example_users_table example_time_table example_songplays_table
        example_output_def stored_song_def stored_col_def partition_value_def)

text \<open>
  Claim C7. When a run on an input, in a given environment (timezone and cast), ends with
  the output location holding \<open>fs'\<close>, a second run on the same input from \<open>fs'\<close> ends
  with \<open>fs'\<close> again; and a run from any other prior contents succeeds too and leaves the
  same five tables: each write replaces what was at its path.
\<close>

theorem rerun_same_output:
  assumes "main tz cast_int input_data fs = Inr fs'"
  shows "main tz cast_int input_data fs' = Inr fs' \<and>
         (\<forall>fs0. \<exists>fs1. main tz cast_int input_data fs0 = Inr fs1 \<and>
            (\<forall>p\<in>set output_tables. fs1 p = fs' p))"
proof -
  obtain dfd where w: "with_datetime tz (filter_cast cast_int (map read_log (log_data input_data))) = Inr dfd"
    using assms unfolding main_result by (auto split: sum.splits)
  have f: "fs' = fs(''s3a://sparkify-data-lake-p4/songs.parquet'' \<mapsto>
                    Parquet [''year'', ''artist_id'']
                      (SongsT (image_mset (stored_song [''year'', ''artist_id''])
                         (mset (songs_table (map read_song (song_data input_data)))))),
                  ''s3a://sparkify-data-lake-p4/artists.parquet'' \<mapsto>
                    Parquet [] (ArtistsT (mset (artists_table (map read_song (song_data input_data))))),
                  ''s3a://sparkify-data-lake-p4/users.parquet'' \<mapsto>
                    Parquet []
                      (UsersT (mset (users_table (filter_cast cast_int (map read_log (log_data input_data)))))),
                  ''s3a://sparkify-data-lake-p4/time.parquet'' \<mapsto>
                    Parquet [''Year'', ''Month''] (TimeT (mset (time_table dfd))),
                  ''s3a://sparkify-data-lake-p4/songplays.parquet'' \<mapsto>
                    Parquet [''year'', ''month'']
                      (SongplaysT (mset (songplays_table dfd (map read_song (song_data input_data))))))"
    using assms unfolding main_result w by simp
  have a: "main tz cast_int input_data fs' = Inr fs'"
    unfolding main_result w by (subst (2) f) (simp add: f fun_eq_iff)
  have b: "\<exists>fs1. main tz cast_int input_data fs0 = Inr fs1 \<and>
            (\<forall>p\<in>set output_tables. fs1 p = fs' p)" for fs0
    unfolding main_result w by (simp add: f output_tables_def)
  from a b show ?thesis by blast
qed

theorem rerun_same_output_witness:
  "main utc cast_digits example_input Map.empty = Inr example_output \<and>
   main utc cast_digits example_input example_output = Inr example_output"
  using example_main rerun_same_output [OF example_main] by blast

section \<open>The time table\<close>

text \<open>
  Claim C3 says the time table has a single row for a datetime that two filtered log
  records share. The time query has no DISTINCT: two plays at the same millisecond, by the
  users "10" and "26", leave the row of that datetime twice in the table.
\<close>

theorem time_table_repeats_datetime:
  "table_at ''s3a://sparkify-data-lake-p4/time.parquet''
     (main utc cast_digits
        \<lparr>song_data = [example_song],
         log_data = [example_log, example_log\<lparr>userId := Some ''26''\<rparr>]\<rparr> Map.empty) =
   Some (TimeT {#(1541110148796000, 22, 5, ''Thursday'', 1, 11, 2018, 3),
                 (1541110148796000, 22, 5, ''Thursday'', 1, 11, 2018, 3)#})"
  unfolding main_result
  by (simp add: table_at_def filter_cast_def is_true_where_cond example_log_fields
        read_log_ts_example
        get_datetime_example time_table_def select_time_example)

section \<open>The double of ts / 1000\<close>

text \<open>
  A positive double below 2 to the power 33 differs from the number it rounds by at most
  2 to the power -21, less than half a microsecond. So for a \<open>ts\<close> from 0 up to that many
  seconds (the year 2242) the seconds and the microseconds that \<^verbatim>\<open>fromtimestamp\<close> takes
  from \<^verbatim>\<open>ts/1000\<close> are exact.
\<close>

lemma round_half_even_error: "\<bar>of_int (round_half_even z) - z\<bar> \<le> 1 / 2"
proof -
  have f: "of_int \<lfloor>z\<rfloor> \<le> z" "z < of_int \<lfloor>z\<rfloor> + 1" by linarith+
  show ?thesis
    using f by (auto simp: round_half_even_def Let_def)
qed

lemma round_half_even_near:
  assumes "\<bar>z - of_int k\<bar> < 1 / 2"
  shows "round_half_even z = k"
proof -
  have e: "\<bar>of_int (round_half_even z) - z\<bar> \<le> 1 / 2" by (rule round_half_even_error)
  have "\<bar>(of_int (round_half_even z) :: rat) - of_int k\<bar> < 1"
    using assms e by linarith
  then have "\<bar>(of_int (round_half_even z - k) :: rat)\<bar> < 1" by simp
  then have "\<bar>round_half_even z - k\<bar> < 1"
    by (metis of_int_abs of_int_less_1_iff)
  then show ?thesis by simp
qed

lemma round_half_even_of_int [simp]: "round_half_even (of_int k) = k"
  by (rule round_half_even_near) simp

lemma to_double_error:
  assumes "0 < x" and "x < pow2 33"
  shows "\<bar>to_double x - x\<bar> \<le> pow2 (- 21)"
proof -
  define e where "e = ilog2 x"
  define u where "u = pow2 (e - 52)"
  have b: "pow2 e \<le> x" using ilog2_bounds [OF assms(1)] by (simp add: e_def)
  then have "pow2 e < pow2 33" using assms(2) by linarith
  then have e32: "e \<le> 32" by (simp add: pow2_less_iff)
  have upos: "0 < u" by (simp add: u_def)
  have ule: "u \<le> pow2 (- 20)" unfolding u_def using e32 by (intro pow2_mono) simp
  have td: "to_double x = of_int (round_half_even (x / u)) * u"
    using assms(1) by (simp add: to_double_def Let_def u_def e_def)
  have "to_double x - x = (of_int (round_half_even (x / u)) - x / u) * u"
    using upos by (simp add: td field_simps)
  then have "\<bar>to_double x - x\<bar> = \<bar>of_int (round_half_even (x / u)) - x / u\<bar> * u"
    using upos by (simp add: abs_mult)
  also have "\<dots> \<le> (1 / 2) * u"
    using round_half_even_error [of "x / u"] upos by (intro mult_right_mono) simp_all
  also have "\<dots> \<le> (1 / 2) * pow2 (- 20)" using ule by simp
  also have "\<dots> = pow2 (- 21)" by (simp add: pow2_def)
  finally show ?thesis .
qed

lemma to_double_of_int:
  assumes "0 < k" and "of_int k < pow2 53"
  shows "to_double (of_int k) = of_int k"
proof -
  define e where "e = ilog2 (of_int k)"
  define u where "u = pow2 (e - 52)"
  have kpos: "(0::rat) < of_int k" using assms(1) by simp
  have b: "pow2 e \<le> of_int k" using ilog2_bounds [OF kpos] by (simp add: e_def)
  then have "pow2 e < pow2 53" using assms(2) by linarith
  then have e52: "e \<le> 52" by (simp add: pow2_less_iff)
  have upos: "0 < u" by (simp add: u_def)
  have one: "pow2 (52 - e) * u = 1"
    unfolding u_def pow2_add [symmetric] by (simp add: pow2_def)
  have p: "pow2 (52 - e) = of_int (2 ^ nat (52 - e))"
    using e52 by (simp add: pow2_def)
  have "of_int k / u = of_int k * (pow2 (52 - e) * u) / u"
    by (simp only: one mult_1_right)
  also have "\<dots> = of_int k * pow2 (52 - e)"
    using upos by simp
  also have "\<dots> = of_int (k * 2 ^ nat (52 - e))"
    unfolding p by simp
  finally have q: "of_int k / u = of_int (k * 2 ^ nat (52 - e))" .
  have r: "round_half_even (of_int k / u) = k * 2 ^ nat (52 - e)"
    unfolding q by (rule round_half_even_of_int)
  have td: "to_double (of_int k) = of_int (round_half_even (of_int k / u)) * u"
    using kpos by (simp add: to_double_def Let_def u_def e_def)
  have "of_int (k * 2 ^ nat (52 - e)) * u = (of_int k / u) * u"
    unfolding q ..
  also have "\<dots> = of_int k" using upos by simp
  finally show ?thesis unfolding td r .
qed

lemma trunc_of_int [simp]: "trunc (of_int k) = k"
  by (simp add: trunc_def)

lemma to_double_zero [simp]: "to_double 0 = 0"
  by (simp add: to_double_def)

lemma timeval_of_double_of_int: "timeval_of_double (of_int k) = (k, 0)"
  by (simp add: timeval_of_double_def Let_def round_half_even_def)

lemma timeval_of_millis:
  assumes "0 \<le> n" and "n < 8589934592000"
  shows "timeval_of_double (to_double (of_int n / 1000)) = (n div 1000, (n mod 1000) * 1000)"
proof -
  define q where "q = n div 1000"
  define r where "r = n mod 1000"
  have n: "n = q * 1000 + r" by (simp add: q_def r_def)
  have r: "0 \<le> r" "r < 1000" by (simp_all add: r_def)
  have q: "0 \<le> q" "q < 8589934592" using assms by (simp_all add: q_def)
  define x :: rat where "x = of_int n / 1000"
  have x: "x = of_int q + of_int r / 1000" by (simp add: x_def n)
  show ?thesis
  proof (cases "r = 0")
    case True
    then have xq: "x = of_int q" by (simp add: x)
    have "to_double (of_int q :: rat) = of_int q"
    proof (cases "q = 0")
      case True
      then show ?thesis by simp
    next
      case False
      then have "0 < q" using q by simp
      moreover have "(of_int q :: rat) < of_int 8589934592" using q(2) by (simp only: of_int_less_iff)
      then have "(of_int q :: rat) < pow2 53" by (simp add: pow2_def)
      ultimately show ?thesis by (rule to_double_of_int)
    qed
    then show ?thesis
      using True unfolding x_def [symmetric] xq q_def [symmetric] r_def [symmetric]
      by (simp add: timeval_of_double_of_int)
  next
    case False
    then have r1: "1 \<le> r" using r by simp
    have rr: "(1::rat) \<le> of_int r" "(of_int r :: rat) \<le> 999"
      using r1 r(2) by simp_all
    have qq: "(0::rat) \<le> of_int q" "(of_int q :: rat) \<le> 8589934591"
      using q by simp_all
    have xpos: "0 < x" using qq rr by (simp add: x)
    have xlt: "x < pow2 33" using qq rr by (simp add: x pow2_def)
    define d where "d = to_double x"
    have de: "\<bar>d - x\<bar> \<le> pow2 (- 21)"
      unfolding d_def using xpos xlt by (rule to_double_error)
    have p21: "pow2 (- 21) = 1 / 2097152" by (simp add: pow2_def)
    have dlo: "of_int q < d" using de rr unfolding p21 x by linarith
    have dhi: "d < of_int q + 1" using de rr unfolding p21 x by linarith
    have dpos: "0 \<le> d" using dlo qq by linarith
    have fl: "\<lfloor>d\<rfloor> = q" using dlo dhi by (intro floor_unique) simp_all
    have tr: "trunc d = q" using dpos fl by (simp add: trunc_def)
    define y where "y = (d - of_int q) * 1000000"
    have yx: "y - of_int (1000 * r) = (d - x) * 1000000" by (simp add: y_def x field_simps)
    have ye: "\<bar>y - of_int (1000 * r)\<bar> \<le> 15625 / 32768"
    proof -
      have "\<bar>y - of_int (1000 * r)\<bar> = \<bar>(d - x) * 1000000\<bar>" by (simp only: yx)
      also have "\<dots> = \<bar>d - x\<bar> * 1000000" by (simp only: abs_mult abs_numeral)
      also have "\<dots> \<le> (1 / 2097152) * 1000000" using de unfolding p21 by simp
      finally show ?thesis by simp
    qed
    have r1000: "(1000::rat) \<le> of_int (1000 * r)" "(of_int (1000 * r) :: rat) \<le> 999000"
      using rr by simp_all
    have ypos: "0 < y" using ye r1000 by linarith
    have "y < 8589934592" using ye r1000 by linarith
    then have ylt: "y < pow2 33" by (simp add: pow2_def)
    have y2: "\<bar>to_double y - y\<bar> \<le> pow2 (- 21)"
      using ypos ylt by (rule to_double_error)
    have "\<bar>to_double y - of_int (1000 * r)\<bar> < 1 / 2"
      using y2 ye unfolding p21 by linarith
    then have rh: "round_half_even (to_double y) = 1000 * r"
      by (rule round_half_even_near)
    have "timeval_of_double d = (q, 1000 * r)"
      unfolding timeval_of_double_def Let_def tr y_def [symmetric] rh
      using r1 r(2) by simp
    then show ?thesis
      unfolding d_def x_def q_def r_def by (simp add: mult.commute)
  qed
qed

lemma wall_seconds_floor_datetime:
  "wall_seconds (floor_datetime tz n) = n div 1000 + tz (n div 1000)"
  by (simp add: wall_seconds_def floor_datetime_def)

lemma wall_seconds_with_millis:
  "wall_seconds (floor_datetime tz n + (n mod 1000) * 1000) = n div 1000 + tz (n div 1000)"
proof -
  have "0 \<le> (n mod 1000) * 1000" "(n mod 1000) * 1000 < 1000000" by simp_all
  then have "((n mod 1000) * 1000) div 1000000 = 0" by simp
  then show ?thesis
    by (simp add: wall_seconds_def floor_datetime_def)
qed

section \<open>The datetime of a log record\<close>

text \<open>
  Claim C4, as amended. For a \<open>ts\<close> from 0 up to 8589934591999 (epoch milliseconds, 1970 to
  2242) the datetime is the local wall clock of \<open>ts / 1000\<close> seconds with the milliseconds
  kept: the floor of \<open>ts / 1000\<close> as local epoch seconds plus \<open>ts mod 1000\<close> milliseconds,
  when the year lies in 1 to 9999 (ValueError otherwise). Its hour, day, month and year
  are those of the floor of \<open>ts / 1000\<close> as local epoch seconds. The datetime itself is
  not that floor: for 1541110148796 it ends in .796.
\<close>

theorem datetime_keeps_milliseconds:
  assumes "0 \<le> n" and "n < 8589934592000"
  shows "get_datetime tz (Some n) =
           (if 1 \<le> sql_year (floor_datetime tz n) \<and> sql_year (floor_datetime tz n) \<le> 9999
            then Inr (floor_datetime tz n + (n mod 1000) * 1000) else Inl ValueError) \<and>
         sql_hour (floor_datetime tz n + (n mod 1000) * 1000) = sql_hour (floor_datetime tz n) \<and>
         sql_day (floor_datetime tz n + (n mod 1000) * 1000) = sql_day (floor_datetime tz n) \<and>
         sql_month (floor_datetime tz n + (n mod 1000) * 1000) = sql_month (floor_datetime tz n) \<and>
         sql_year (floor_datetime tz n + (n mod 1000) * 1000) = sql_year (floor_datetime tz n)"
proof -
  have g: "get_datetime tz (Some n) =
           (if 1 \<le> sql_year (floor_datetime tz n) \<and> sql_year (floor_datetime tz n) \<le> 9999
            then Inr (floor_datetime tz n + (n mod 1000) * 1000) else Inl ValueError)"
  proof -
    define W where "W = n div 1000 + tz (n div 1000)"
    have st: "get_datetime tz (Some n) =
        (if 1 \<le> fst (civil_from_days (W div 86400)) \<and> fst (civil_from_days (W div 86400)) \<le> 9999
         then Inr (W * 1000000 + (n mod 1000) * 1000) else Inl ValueError)"
      unfolding get_datetime_def option.case fromtimestamp_def timeval_of_millis [OF assms]
      by (simp add: Let_def W_def)
    have sy: "sql_year (W * 1000000) = fst (civil_from_days (W div 86400))"
      by (simp add: sql_year_def wall_seconds_def)
    have fd: "floor_datetime tz n = W * 1000000"
      by (simp add: floor_datetime_def W_def)
    show ?thesis
      unfolding st fd sy ..
  qed
  show ?thesis
    unfolding g sql_hour_def sql_day_def sql_month_def sql_year_def wall_seconds_with_millis
      wall_seconds_floor_datetime
    by simp
qed

theorem datetime_floor_counterexample:
  "get_datetime utc (Some 1541110148796) \<noteq> Inr (floor_datetime utc 1541110148796)"
  by (simp add: get_datetime_example floor_datetime_def utc_def)

theorem datetime_keeps_milliseconds_witness:
  "(0::int) \<le> 1541110148796 \<and> (1541110148796::int) < 8589934592000 \<and>
   get_datetime utc (Some 1541110148796) = Inr (floor_datetime utc 1541110148796 + 796000) \<and>
   sql_hour (floor_datetime utc 1541110148796 + 796000) = 22 \<and>
   sql_day (floor_datetime utc 1541110148796 + 796000) = 1 \<and>
   sql_month (floor_datetime utc 1541110148796 + 796000) = 11 \<and>
   sql_year (floor_datetime utc 1541110148796 + 796000) = 2018"
proof -
  have a: "(0::int) \<le> 1541110148796" and b: "(1541110148796::int) < 8589934592000" by simp_all
  have f: "floor_datetime utc 1541110148796 = 1541110148000000"
    by (simp add: floor_datetime_def utc_def)
  have y: "sql_year 1541110148000000 = 2018" "sql_month 1541110148000000 = 11"
    "sql_day 1541110148000000 = 1" "sql_hour 1541110148000000 = 22"
    by (simp_all add: sql_year_def sql_month_def sql_day_def sql_hour_def wall_seconds_def
          civil_example)
  show ?thesis
    using a b datetime_keeps_milliseconds [OF a b, of utc]
    by (simp add: f y)
qed

end
